theory Spec2Isabelle
  imports Complex_Main
begin

section \<open>Request bodies and rows: JSON values\<close>

text \<open>
  The server is an Express application: every request body has gone through
  \<^verbatim>\<open>express.json()\<close>, every row travels to and from the store as a JSON object. A JSON
  number is a finite double, which is a rational; the schemas only compare numbers with
  the integers 1 and 11, and these comparisons are exact. A JavaScript string is a
  sequence of UTF-16 code units and \<^verbatim>\<open>length\<close> counts them: one \<open>char\<close> of the model stands
  for one code unit. An object is a finite map from keys to values; a key that is absent
  reads as \<^verbatim>\<open>undefined\<close>, here \<open>None\<close>.
\<close>

datatype json =
    JNull
  | JBool bool
  | JNum rat
  | JStr string
  | JArr "json list"
  | JObj "string \<Rightarrow> json option"

type_synonym object = "string \<rightharpoonup> json"

section \<open>The zod schemas\<close>

text \<open>
  \<^verbatim>\<open>Schema.parse(body)\<close> returns the typed value or throws a \<^verbatim>\<open>ZodError\<close> that lists one
  issue for every check that failed. An issue is kept as its path and its code.
\<close>

datatype zod_code = invalid_type | too_small | too_big | invalid_string | invalid_enum_value

type_synonym zod_issue = "string list \<times> zod_code"

type_synonym 'a parsed = "zod_issue list + 'a"

text \<open>\<^verbatim>\<open>z.string().min(lo).max(hi)\<close> at key \<open>k\<close>.\<close>

definition z_string_min_max :: "nat \<Rightarrow> nat \<Rightarrow> string \<Rightarrow> json option \<Rightarrow> string parsed" where
  "z_string_min_max lo hi k v =
     (case v of
        Some (JStr s) \<Rightarrow>
          if length s < lo then Inl [([k], too_small)]
          else if hi < length s then Inl [([k], too_big)]
          else Inr s
      | _ \<Rightarrow> Inl [([k], invalid_type)])"

text \<open>\<^verbatim>\<open>z.string()\<close> at key \<open>k\<close>.\<close>

definition z_string :: "string \<Rightarrow> json option \<Rightarrow> string parsed" where
  "z_string k v = (case v of Some (JStr s) \<Rightarrow> Inr s | _ \<Rightarrow> Inl [([k], invalid_type)])"

text \<open>
  \<^verbatim>\<open>z.number().min(lo).max(hi).default(d)\<close>: the default stands in for \<^verbatim>\<open>undefined\<close> only
  (\<^verbatim>\<open>null\<close> is an \<open>invalid_type\<close>); the schema has no \<^verbatim>\<open>.int()\<close> check.
\<close>

definition z_number_min_max_default :: "rat \<Rightarrow> rat \<Rightarrow> rat \<Rightarrow> string \<Rightarrow> json option \<Rightarrow> rat parsed" where
  "z_number_min_max_default lo hi d k v =
     (case v of
        None \<Rightarrow> Inr d
      | Some (JNum x) \<Rightarrow>
          if x < lo then Inl [([k], too_small)]
          else if hi < x then Inl [([k], too_big)]
          else Inr x
      | Some _ \<Rightarrow> Inl [([k], invalid_type)])"

text \<open>\<^verbatim>\<open>z.boolean().default(d)\<close>.\<close>

definition z_boolean_default :: "bool \<Rightarrow> string \<Rightarrow> json option \<Rightarrow> bool parsed" where
  "z_boolean_default d k v =
     (case v of
        None \<Rightarrow> Inr d
      | Some (JBool b) \<Rightarrow> Inr b
      | Some _ \<Rightarrow> Inl [([k], invalid_type)])"

text \<open>
  \<^verbatim>\<open>z.string().datetime()\<close> with no options: an ISO 8601 date-time in UTC, that is
  \<^verbatim>\<open>YYYY-MM-DDTHH:MM:SS\<close>, an optional fraction of a second of any precision, and the
  letter Z; offsets are refused.
\<close>

definition is_digit :: "char \<Rightarrow> bool" where
  "is_digit c = (c \<in> set ''0123456789'')"

fun matches_mask :: "string \<Rightarrow> string \<Rightarrow> bool" where
  "matches_mask [] [] = True"
| "matches_mask (m # ms) (c # cs) =
     ((if m = CHR ''d'' then is_digit c else c = m) \<and> matches_mask ms cs)"
| "matches_mask _ _ = False"

definition datetime_tail :: "string \<Rightarrow> bool" where
  "datetime_tail s =
     (case s of
        [] \<Rightarrow> False
      | c # r \<Rightarrow>
          if c = CHR ''.'' then takeWhile is_digit r \<noteq> [] \<and> dropWhile is_digit r = ''Z''
          else s = ''Z'')"

definition is_datetime :: "string \<Rightarrow> bool" where
  "is_datetime s = (matches_mask ''dddd-dd-ddTdd:dd:dd'' (take 19 s) \<and> datetime_tail (drop 19 s))"

definition z_string_datetime :: "string \<Rightarrow> json option \<Rightarrow> string parsed" where
  "z_string_datetime k v =
     (case v of
        Some (JStr s) \<Rightarrow> if is_datetime s then Inr s else Inl [([k], invalid_string)]
      | _ \<Rightarrow> Inl [([k], invalid_type)])"

text \<open>\<^verbatim>\<open>z.enum(options)\<close>.\<close>

definition z_enum :: "string list \<Rightarrow> string \<Rightarrow> json option \<Rightarrow> string parsed" where
  "z_enum options k v =
     (case v of
        Some (JStr s) \<Rightarrow> if s \<in> set options then Inr s else Inl [([k], invalid_enum_value)]
      | _ \<Rightarrow> Inl [([k], invalid_type)])"

text \<open>An object schema checks every key and reports the issues of all of them.\<close>

fun both :: "'a parsed \<Rightarrow> 'b parsed \<Rightarrow> ('a \<times> 'b) parsed" where
  "both (Inr a) (Inr b) = Inr (a, b)"
| "both (Inl e) (Inr b) = Inl e"
| "both (Inr a) (Inl f) = Inl f"
| "both (Inl e) (Inl f) = Inl (e @ f)"

record RoomInput =
  name :: string
  capacity :: rat
  startAt :: string
  endAt :: string
  timezone :: string
  recurring :: bool

text \<open>
  \<^verbatim>\<open>RoomSchema.parse\<close>. A \<^verbatim>\<open>z.object\<close> refuses what is not an object and keeps the keys of
  its shape only: any other key of the body is dropped from the value it returns.
\<close>

definition RoomSchema_parse :: "json \<Rightarrow> RoomInput parsed" where
  "RoomSchema_parse b =
     (case b of
        JObj m \<Rightarrow>
          (case both (z_string_min_max 1 100 ''name'' (m ''name''))
                (both (z_number_min_max_default 1 11 11 ''capacity'' (m ''capacity''))
                (both (z_string_datetime ''startAt'' (m ''startAt''))
                (both (z_string_datetime ''endAt'' (m ''endAt''))
                (both (z_string ''timezone'' (m ''timezone''))
                      (z_boolean_default False ''recurring'' (m ''recurring''))))))
           of
             Inl issues \<Rightarrow> Inl issues
           | Inr (n, c, s, e, tz, r) \<Rightarrow>
               Inr \<lparr>name = n, capacity = c, startAt = s, endAt = e, timezone = tz, recurring = r\<rparr>)
      | _ \<Rightarrow> Inl [([], invalid_type)])"

record TokenInput =
  role :: string
  displayName :: string

definition TokenSchema_parse :: "json \<Rightarrow> TokenInput parsed" where
  "TokenSchema_parse b =
     (case b of
        JObj m \<Rightarrow>
          (case both (z_enum [''host'', ''cohost'', ''participant''] ''role'' (m ''role''))
                     (z_string_min_max 1 50 ''displayName'' (m ''displayName''))
           of
             Inl issues \<Rightarrow> Inl issues
           | Inr (r, n) \<Rightarrow> Inr \<lparr>role = r, displayName = n\<rparr>)
      | _ \<Rightarrow> Inl [([], invalid_type)])"

text \<open>The object spread \<^verbatim>\<open>...data\<close> of a parsed room input.\<close>

definition spread :: "RoomInput \<Rightarrow> object" where
  "spread d =
     [''name'' \<mapsto> JStr (name d), ''capacity'' \<mapsto> JNum (capacity d),
      ''startAt'' \<mapsto> JStr (startAt d), ''endAt'' \<mapsto> JStr (endAt d),
      ''timezone'' \<mapsto> JStr (timezone d), ''recurring'' \<mapsto> JBool (recurring d)]"

section \<open>The room store\<close>

text \<open>
  Modelled from the spec: the \<^verbatim>\<open>rooms\<close> table and the Supabase client that reaches it are
  not part of the repository (it only calls \<^verbatim>\<open>createClient\<close>). The spec gives the store three
  capabilities, \<^verbatim>\<open>insert(record)\<close>, \<^verbatim>\<open>getById(id)\<close> and \<^verbatim>\<open>updateState(id, newState)\<close>, each
  atomic on one record, and the invariant that exactly one record per id exists at any
  time. So the table is a map from ids to rows; an insert under an id that is taken is
  refused; a call that fails changes nothing. Every call can also fail for a reason of the
  store's own (the store is unavailable): \<open>fault\<close> is then the message of that error.
  The handlers always end a query with \<^verbatim>\<open>.single()\<close>, which turns "no row" into an error.
\<close>

type_synonym row = "string \<rightharpoonup> json"

type_synonym table = "string \<rightharpoonup> row"

definition duplicate_key :: string where
  "duplicate_key = ''duplicate key value violates unique constraint''"

definition no_rows :: string where
  "no_rows = ''JSON object requested, multiple (or no) rows returned''"

definition null_id :: string where
  "null_id = ''null value in column id violates not-null constraint''"

text \<open>\<^verbatim>\<open>supabase.from('rooms').insert([r]).select().single()\<close>\<close>

definition rooms_insert :: "string option \<Rightarrow> row \<Rightarrow> table \<Rightarrow> (string + row) \<times> table" where
  "rooms_insert fault r t =
     (case fault of
        Some m \<Rightarrow> (Inl m, t)
      | None \<Rightarrow>
          (case r ''id'' of
             Some (JStr i) \<Rightarrow>
               if t i = None then (Inr r, t(i \<mapsto> r)) else (Inl duplicate_key, t)
           | _ \<Rightarrow> (Inl null_id, t)))"

text \<open>\<^verbatim>\<open>supabase.from('rooms').select('*').eq('id', i).single()\<close>\<close>

definition rooms_select :: "string option \<Rightarrow> string \<Rightarrow> table \<Rightarrow> string + row" where
  "rooms_select fault i t =
     (case fault of
        Some m \<Rightarrow> Inl m
      | None \<Rightarrow> (case t i of None \<Rightarrow> Inl no_rows | Some r \<Rightarrow> Inr r))"

text \<open>\<^verbatim>\<open>supabase.from('rooms').update(patch).eq('id', i).select().single()\<close>\<close>

definition rooms_update :: "string option \<Rightarrow> object \<Rightarrow> string \<Rightarrow> table \<Rightarrow> (string + row) \<times> table" where
  "rooms_update fault patch i t =
     (case fault of
        Some m \<Rightarrow> (Inl m, t)
      | None \<Rightarrow>
          (case t i of
             None \<Rightarrow> (Inl no_rows, t)
           | Some r \<Rightarrow> (Inr (r ++ patch), t(i \<mapsto> r ++ patch))))"

text \<open>The calls a handler makes to the store, in order.\<close>

datatype store_call = Insert row | Select string | Update string object

section \<open>sanitize-html\<close>

text \<open>
  Modelled from the spec: the \<^verbatim>\<open>sanitize-html\<close> package is not part of the repository. The
  handler calls it with \<^verbatim>\<open>allowedTags: []\<close> and \<^verbatim>\<open>allowedAttributes: {}\<close>; the spec says that
  this strips all markup tags and attributes and leaves plain text only, and that
  \<^verbatim>\<open><script>x</script>Ann\<close> becomes \<^verbatim>\<open>Ann\<close>. The name is read character by character, as
  the package's HTML tokenizer reads it. A tag starts at a \<^verbatim>\<open><\<close> that is followed by a
  letter, a slash, an exclamation mark or a question mark, and ends at the next \<^verbatim>\<open>>\<close> that
  is not inside a quoted attribute value; any other \<^verbatim>\<open><\<close> is text. Opening and closing tags
  are dropped with their attributes, and so are comments, declarations and processing
  instructions, and a tag that the input ends in. The text between tags is kept, except
  inside the elements whose content is not text (the package's default \<^verbatim>\<open>nonTextTags\<close>),
  which is dropped up to the closing tag of the element.

  The package returns HTML rather than the bare text: a character reference in the text
  is decoded, and the characters \<^verbatim>\<open>&\<close>, \<^verbatim>\<open><\<close> and \<^verbatim>\<open>>\<close> of the text that is kept are written as
  \<^verbatim>\<open>&amp;\<close>, \<^verbatim>\<open>&lt;\<close> and \<^verbatim>\<open>&gt;\<close>. The spec does not say so. The table of character
  references belongs to the parser: \<open>decode cs\<close> is what the parser reads at the head of
  the text \<open>cs\<close> that follows an ampersand, the decoded characters and the number of
  characters of \<open>cs\<close> they stand for, or \<open>None\<close> when no reference starts there.
\<close>

definition nonTextTags :: "string list" where
  "nonTextTags = [''script'', ''style'', ''textarea'', ''option'']"

definition lower :: "char \<Rightarrow> char" where
  "lower c =
     (case map_of (zip ''ABCDEFGHIJKLMNOPQRSTUVWXYZ'' ''abcdefghijklmnopqrstuvwxyz'') c of
        Some d \<Rightarrow> d
      | None \<Rightarrow> c)"

definition is_alpha :: "char \<Rightarrow> bool" where
  "is_alpha c = (lower c \<in> set ''abcdefghijklmnopqrstuvwxyz'')"

text \<open>Space, line feed, tab, form feed and carriage return.\<close>

definition is_space :: "char \<Rightarrow> bool" where
  "is_space c = (c \<in> set [CHR '' '', CHR 0x0A, CHR 0x09, CHR 0x0C, CHR 0x0D])"

type_synonym decoder = "string \<Rightarrow> (string \<times> nat) option"

definition escape_char :: "char \<Rightarrow> string" where
  "escape_char c =
     (if c = CHR ''&'' then ''&amp;''
      else if c = CHR ''<'' then ''&lt;''
      else if c = CHR ''>'' then ''&gt;''
      else [c])"

definition escapeHtml :: "string \<Rightarrow> string" where
  "escapeHtml s = concat (map escape_char s)"

text \<open>
  Where the tokenizer is. Inside a tag it carries the name of the tag, in lower case;
  \<open>InEntity k\<close> has \<open>k\<close> characters of a decoded reference still to pass, \<open>CDATASequence\<close>
  the rest of \<^verbatim>\<open>CDATA[\<close> still to match, \<open>InCommentLike e k\<close> the closing character of a
  comment (\<^verbatim>\<open>-\<close>) or of a CDATA section (\<^verbatim>\<open>]\<close>) and how many of them were just read, and
  \<open>InNonText n\<close> the name of the element whose content is being dropped. \<^verbatim>\<open>CHR 0x22\<close> and
  \<^verbatim>\<open>CHR 0x27\<close> are the double and the single quote.
\<close>

datatype tokenizer =
    Text
  | InEntity nat
  | BeforeTagName
  | InTagName string
  | BeforeAttributeName string
  | InSelfClosingTag string
  | InAttributeName string
  | AfterAttributeName string
  | BeforeAttributeValue string
  | InAttributeValueDq string
  | InAttributeValueSq string
  | InAttributeValueNq string
  | BeforeClosingTagName
  | InClosingTagName
  | AfterClosingTagName
  | BeforeDeclaration
  | BeforeComment
  | InDeclaration
  | CDATASequence string
  | InCommentLike char nat
  | InNonText string

definition in_text :: "decoder \<Rightarrow> char \<Rightarrow> string \<Rightarrow> string \<times> tokenizer" where
  "in_text decode c cs =
     (if c = CHR ''<'' then ([], BeforeTagName)
      else if c = CHR ''&'' then
        (case decode cs of
           None \<Rightarrow> (''&amp;'', Text)
         | Some (decoded, k) \<Rightarrow> (escapeHtml decoded, if k = 0 then Text else InEntity k))
      else (escape_char c, Text))"

definition open_tag_end :: "string \<Rightarrow> tokenizer" where
  "open_tag_end n = (if n \<in> set nonTextTags then InNonText n else Text)"

definition before_attribute_name :: "string \<Rightarrow> char \<Rightarrow> tokenizer" where
  "before_attribute_name n c =
     (if c = CHR ''>'' then open_tag_end n
      else if c = CHR ''/'' then InSelfClosingTag n
      else if is_space c then BeforeAttributeName n
      else InAttributeName n)"

definition after_attribute_name :: "string \<Rightarrow> char \<Rightarrow> tokenizer" where
  "after_attribute_name n c =
     (if c = CHR ''='' then BeforeAttributeValue n
      else if c = CHR ''/'' \<or> c = CHR ''>'' then before_attribute_name n c
      else if is_space c then AfterAttributeName n
      else InAttributeName n)"

definition in_declaration :: "char \<Rightarrow> tokenizer" where
  "in_declaration c = (if c = CHR ''>'' then Text else InDeclaration)"

text \<open>
  The closing tag of the element \<open>n\<close> starts here: after the \<^verbatim>\<open><\<close> come a slash, the name
  in either case, and a \<^verbatim>\<open>>\<close> or a space.
\<close>

definition closes :: "string \<Rightarrow> string \<Rightarrow> bool" where
  "closes n cs =
     (map lower (take (Suc (length n)) cs) = CHR ''/'' # n \<and>
      (case drop (Suc (length n)) cs of
         [] \<Rightarrow> False
       | x # xs \<Rightarrow> x = CHR ''>'' \<or> is_space x))"

text \<open>
  One character \<open>c\<close>, with the input \<open>cs\<close> that follows it: the text that is written out,
  and where the tokenizer is next.
\<close>

fun step :: "decoder \<Rightarrow> tokenizer \<Rightarrow> char \<Rightarrow> string \<Rightarrow> string \<times> tokenizer" where
  "step decode Text c cs = in_text decode c cs"
| "step decode (InEntity k) c cs = ([], if k \<le> 1 then Text else InEntity (k - 1))"
| "step decode BeforeTagName c cs =
     (if c = CHR ''!'' then ([], BeforeDeclaration)
      else if c = CHR ''?'' then ([], InDeclaration)
      else if is_alpha c then ([], InTagName [lower c])
      else if c = CHR ''/'' then ([], BeforeClosingTagName)
      else (''&lt;'' @ fst (in_text decode c cs), snd (in_text decode c cs)))"
| "step decode (InTagName n) c cs =
     ([], if c = CHR ''/'' \<or> c = CHR ''>'' \<or> is_space c then before_attribute_name n c
          else InTagName (n @ [lower c]))"
| "step decode (BeforeAttributeName n) c cs = ([], before_attribute_name n c)"
| "step decode (InSelfClosingTag n) c cs =
     ([], if c = CHR ''>'' then open_tag_end n
          else if is_space c then InSelfClosingTag n
          else before_attribute_name n c)"
| "step decode (InAttributeName n) c cs =
     ([], if c = CHR ''='' \<or> c = CHR ''/'' \<or> c = CHR ''>'' \<or> is_space c
          then after_attribute_name n c
          else InAttributeName n)"
| "step decode (AfterAttributeName n) c cs = ([], after_attribute_name n c)"
| "step decode (BeforeAttributeValue n) c cs =
     ([], if c = CHR 0x22 then InAttributeValueDq n
          else if c = CHR 0x27 then InAttributeValueSq n
          else if is_space c then BeforeAttributeValue n
          else if c = CHR ''>'' then before_attribute_name n c
          else InAttributeValueNq n)"
| "step decode (InAttributeValueDq n) c cs =
     ([], if c = CHR 0x22 then BeforeAttributeName n else InAttributeValueDq n)"
| "step decode (InAttributeValueSq n) c cs =
     ([], if c = CHR 0x27 then BeforeAttributeName n else InAttributeValueSq n)"
| "step decode (InAttributeValueNq n) c cs =
     ([], if is_space c \<or> c = CHR ''>'' then before_attribute_name n c
          else InAttributeValueNq n)"
| "step decode BeforeClosingTagName c cs =
     ([], if is_space c then BeforeClosingTagName
          else if c = CHR ''>'' then Text
          else if is_alpha c then InClosingTagName
          else InDeclaration)"
| "step decode InClosingTagName c cs =
     ([], if c = CHR ''>'' then Text
          else if is_space c then AfterClosingTagName
          else InClosingTagName)"
| "step decode AfterClosingTagName c cs = ([], in_declaration c)"
| "step decode BeforeDeclaration c cs =
     ([], if c = CHR ''['' then CDATASequence ''CDATA[''
          else if c = CHR ''-'' then BeforeComment
          else InDeclaration)"
| "step decode BeforeComment c cs =
     ([], if c = CHR ''-'' then InCommentLike (CHR ''-'') 2 else InDeclaration)"
| "step decode InDeclaration c cs = ([], in_declaration c)"
| "step decode (CDATASequence []) c cs = ([], in_declaration c)"
| "step decode (CDATASequence (x # xs)) c cs =
     ([], if c \<noteq> x then in_declaration c
          else if xs = [] then InCommentLike (CHR '']'') 0
          else CDATASequence xs)"
| "step decode (InCommentLike e k) c cs =
     ([], if k = 2 \<and> c = CHR ''>'' then Text
          else if c = e then InCommentLike e (min 2 (Suc k))
          else InCommentLike e 0)"
| "step decode (InNonText n) c cs =
     ([], if c = CHR ''<'' \<and> closes n cs then BeforeTagName else InNonText n)"

text \<open>At the end of the input, a \<^verbatim>\<open><\<close> that started no tag is text.\<close>

fun at_end :: "tokenizer \<Rightarrow> string" where
  "at_end BeforeTagName = ''&lt;''"
| "at_end BeforeClosingTagName = ''&lt;/''"
| "at_end s = []"

fun scan :: "decoder \<Rightarrow> tokenizer \<Rightarrow> string \<Rightarrow> string" where
  "scan decode s [] = at_end s"
| "scan decode s (c # cs) = fst (step decode s c cs) @ scan decode (snd (step decode s c cs)) cs"

definition sanitizeHtml :: "decoder \<Rightarrow> string \<Rightarrow> string" where
  "sanitizeHtml decode s = scan decode Text s"


text \<open>The tokenizer is inside the opening tag \<open>n\<close>, after its name and outside a quoted value.\<close>

definition in_open_tag :: "string \<Rightarrow> tokenizer \<Rightarrow> bool" where
  "in_open_tag n s =
     (s \<in> {BeforeAttributeName n, InSelfClosingTag n, InAttributeName n, AfterAttributeName n,
            BeforeAttributeValue n, InAttributeValueNq n})"

section \<open>jsonwebtoken\<close>

text \<open>
  \<^verbatim>\<open>jwt.sign(payload, secret, { expiresIn })\<close> stamps the payload with the time of signing
  (\<open>iat\<close>, in seconds) and the expiry \<open>exp = iat + expiresIn\<close>, and signs it. The signed
  string is kept as what it decodes to, together with the secret that signed it. A time
  span is a number followed by a unit, as the \<^verbatim>\<open>ms\<close> package reads it; only the one-letter
  units are modelled.
\<close>

definition digit_val :: "char \<Rightarrow> nat" where
  "digit_val c = of_char c - 48"

definition number_of :: "string \<Rightarrow> nat" where
  "number_of ds = foldl (\<lambda>n c. 10 * n + digit_val c) 0 ds"

definition unit_seconds :: "string \<Rightarrow> nat option" where
  "unit_seconds u = map_of [(''s'', 1), (''m'', 60), (''h'', 3600), (''d'', 86400)] u"

definition timespan :: "string \<Rightarrow> nat option" where
  "timespan s =
     (if takeWhile is_digit s = [] then None
      else map_option (\<lambda>k. number_of (takeWhile is_digit s) * k)
             (unit_seconds (dropWhile is_digit s)))"

record jwt =
  payload :: object
  iat :: nat
  exp_time :: nat
  signed_with :: string

definition jwt_sign :: "object \<Rightarrow> string \<Rightarrow> string \<Rightarrow> nat \<Rightarrow> string + jwt" where
  "jwt_sign p secret expiresIn t =
     (if secret = [] then Inl ''secretOrPrivateKey must have a value''
      else case timespan expiresIn of
             None \<Rightarrow> Inl ''expiresIn should be a number of seconds or string representing a timespan''
           | Some d \<Rightarrow> Inr \<lparr>payload = p, iat = t, exp_time = t + d, signed_with = secret\<rparr>)"

section \<open>The handlers\<close>

text \<open>
  What a request meets outside the handler: the id \<^verbatim>\<open>nanoid(10)\<close> draws, the fault of the
  store (if any), the clock in seconds, and the environment variables. The text of
  \<^verbatim>\<open>ZodError.message\<close>, which zod renders from the issue list, and the character
  references that the HTML parser decodes are taken as they come.
\<close>

record world =
  ZodError_message :: "zod_issue list \<Rightarrow> string"
  decodeEntity :: decoder
  nanoid_out :: string
  store_error :: "string option"
  now :: nat
  JWT_SECRET :: "string option"
  LIVEKIT_API_KEY :: "string option"
  LIVEKIT_API_SECRET :: "string option"
  LIVEKIT_URL :: "string option"

datatype reply =
    ErrorReply string
  | RoomReply row
  | TokenReply jwt
  | LiveKitReply json "string option"

record response =
  status :: nat
  body :: reply

record outcome =
  resp :: response
  tbl :: table
  calls :: "store_call list"

definition respond :: "nat \<Rightarrow> reply \<Rightarrow> table \<Rightarrow> store_call list \<Rightarrow> outcome" where
  "respond s b t cs = \<lparr>resp = \<lparr>status = s, body = b\<rparr>, tbl = t, calls = cs\<rparr>"

text \<open>\<^verbatim>\<open>POST /rooms\<close> (part_000, lines 37 to 51)\<close>

definition post_rooms :: "world \<Rightarrow> json \<Rightarrow> table \<Rightarrow> outcome" where
  "post_rooms w b t =
     (case RoomSchema_parse b of
        Inl issues \<Rightarrow> respond 400 (ErrorReply (ZodError_message w issues)) t []
      | Inr d \<Rightarrow>
          (let r = [''id'' \<mapsto> JStr (nanoid_out w)] ++ spread d ++ [''state'' \<mapsto> JStr ''scheduled'']
           in case rooms_insert (store_error w) r t of
                (Inl m, t') \<Rightarrow> respond 400 (ErrorReply m) t' [Insert r]
              | (Inr created, t') \<Rightarrow> respond 200 (RoomReply created) t' [Insert r]))"

text \<open>\<^verbatim>\<open>GET /rooms/:id\<close> (part_000, lines 54 to 63)\<close>

definition get_rooms :: "world \<Rightarrow> string \<Rightarrow> table \<Rightarrow> outcome" where
  "get_rooms w i t =
     (case rooms_select (store_error w) i t of
        Inl m \<Rightarrow> respond 404 (ErrorReply ''Room not found'') t [Select i]
      | Inr found \<Rightarrow> respond 200 (RoomReply found) t [Select i])"

text \<open>\<^verbatim>\<open>POST /rooms/:id/tokens\<close> (part_000, lines 66 to 95)\<close>

definition secret_or_default :: "string option \<Rightarrow> string" where
  "secret_or_default e = (case e of None \<Rightarrow> ''secret'' | Some s \<Rightarrow> if s = [] then ''secret'' else s)"

definition post_tokens :: "world \<Rightarrow> string \<Rightarrow> json \<Rightarrow> table \<Rightarrow> outcome" where
  "post_tokens w i b t =
     (case TokenSchema_parse b of
        Inl issues \<Rightarrow> respond 400 (ErrorReply ''Invalid token data'') t []
      | Inr d \<Rightarrow>
          (case rooms_select (store_error w) i t of
             Inl m \<Rightarrow> respond 400 (ErrorReply ''Room not available'') t [Select i]
           | Inr found \<Rightarrow>
               if found ''state'' = Some (JStr ''closed'')
               then respond 400 (ErrorReply ''Room not available'') t [Select i]
               else
                 (let sanitizedName = sanitizeHtml (decodeEntity w) (displayName d)
                  in case jwt_sign
                            [''roomId'' \<mapsto> JStr i, ''role'' \<mapsto> JStr (role d),
                             ''identity'' \<mapsto> JStr sanitizedName]
                            (secret_or_default (JWT_SECRET w)) ''15m'' (now w)
                     of
                       Inl m \<Rightarrow> respond 400 (ErrorReply ''Invalid token data'') t [Select i]
                     | Inr token \<Rightarrow> respond 200 (TokenReply token) t [Select i])))"

text \<open>\<^verbatim>\<open>POST /rooms/:id/close\<close> (part_000, lines 98 to 108)\<close>

definition post_close :: "world \<Rightarrow> string \<Rightarrow> table \<Rightarrow> outcome" where
  "post_close w i t =
     (case rooms_update (store_error w) [''state'' \<mapsto> JStr ''closed''] i t of
        (Inl m, t') \<Rightarrow> respond 400 (ErrorReply m) t' [Update i [''state'' \<mapsto> JStr ''closed'']]
      | (Inr updated, t') \<Rightarrow> respond 200 (RoomReply updated) t' [Update i [''state'' \<mapsto> JStr ''closed'']])"

text \<open>
  \<^verbatim>\<open>POST /rooms/:id/tokens\<close> of the LiveKit server (part_001, lines 80 to 114). The
  \<^verbatim>\<open>livekit-server-sdk\<close> package is not part of the repository and is not modelled:
  \<open>toJwt key secret identity room\<close> stands for what
  \<^verbatim>\<open>new AccessToken(key, secret, { identity })\<close>, \<^verbatim>\<open>addGrant({ roomJoin: true, room })\<close> and
  \<^verbatim>\<open>toJwt()\<close> come to, which is the message of the error they throw or the value of
  \<^verbatim>\<open>livekitToken\<close> as \<^verbatim>\<open>res.json\<close> writes it (the handler does not await it). These four
  are all that the handler gives the SDK: it passes no \<^verbatim>\<open>ttl\<close>. The role is validated and
  then not used.
\<close>

type_synonym livekit_sdk = "string option \<Rightarrow> string option \<Rightarrow> string \<Rightarrow> string \<Rightarrow> string + json"

definition post_tokens_001 :: "livekit_sdk \<Rightarrow> world \<Rightarrow> string \<Rightarrow> json \<Rightarrow> table \<Rightarrow> outcome" where
  "post_tokens_001 toJwt w i b t =
     (case TokenSchema_parse b of
        Inl issues \<Rightarrow> respond 400 (ErrorReply (ZodError_message w issues)) t []
      | Inr d \<Rightarrow>
          (case rooms_select (store_error w) i t of
             Inl m \<Rightarrow> respond 400 (ErrorReply ''Room not available'') t [Select i]
           | Inr found \<Rightarrow>
               if found ''state'' = Some (JStr ''closed'')
               then respond 400 (ErrorReply ''Room not available'') t [Select i]
               else
                 (let sanitizedName = sanitizeHtml (decodeEntity w) (displayName d)
                  in case toJwt (LIVEKIT_API_KEY w) (LIVEKIT_API_SECRET w) sanitizedName i of
                       Inl m \<Rightarrow> respond 400 (ErrorReply m) t [Select i]
                     | Inr livekitToken \<Rightarrow>
                         respond 200 (LiveKitReply livekitToken (LIVEKIT_URL w)) t [Select i])))"

text \<open>
  \<^verbatim>\<open>POST /rooms\<close> of part_002 (lines 38 to 63): the body is used as it arrives,
  \<^verbatim>\<open>RoomSchema\<close> is declared in the file and never called. \<open>toISOString v\<close> stands for
  \<^verbatim>\<open>new Date(v).toISOString()\<close>, which throws a \<^verbatim>\<open>RangeError\<close> (here \<open>None\<close>) when \<open>v\<close> is
  no date. Reading a property of \<^verbatim>\<open>null\<close> throws; of any other value that is not an
  object it gives \<^verbatim>\<open>undefined\<close>. A key whose value is \<^verbatim>\<open>undefined\<close> is not sent to the store.
\<close>

definition nullish :: "json option \<Rightarrow> json" where
  "nullish v = (case v of None \<Rightarrow> JNull | Some x \<Rightarrow> x)"

definition properties :: "json \<Rightarrow> object" where
  "properties b = (case b of JObj m \<Rightarrow> m | _ \<Rightarrow> Map.empty)"

definition post_rooms_002 ::
  "(json option \<Rightarrow> string option) \<Rightarrow> world \<Rightarrow> json \<Rightarrow> table \<Rightarrow> outcome" where
  "post_rooms_002 toISOString w b t =
     (if b = JNull then respond 400 (ErrorReply ''Cannot read properties of null'') t []
      else
        (case toISOString (properties b ''startAt'') of
           None \<Rightarrow> respond 400 (ErrorReply ''Invalid time value'') t []
         | Some s \<Rightarrow>
             (case toISOString (properties b ''endAt'') of
                None \<Rightarrow> respond 400 (ErrorReply ''Invalid time value'') t []
              | Some e \<Rightarrow>
                  (let r = (Map.empty
                         (''id'' \<mapsto> JStr (nanoid_out w),
                          ''name'' := properties b ''name'',
                          ''capacity'' \<mapsto> nullish (properties b ''capacity''),
                          ''start_at'' \<mapsto> JStr s,
                          ''end_at'' \<mapsto> JStr e,
                          ''timezone'' := properties b ''timezone'',
                          ''recurring'' \<mapsto> nullish (properties b ''recurring''),
                          ''state'' \<mapsto> JStr ''scheduled''))
                   in case rooms_insert (store_error w) r t of
                        (Inl m, t') \<Rightarrow> respond 400 (ErrorReply m) t' [Insert r]
                      | (Inr created, t') \<Rightarrow> respond 200 (RoomReply created) t' [Insert r]))))"

section \<open>Sequences of requests\<close>

text \<open>
  The server answers one request after another against the same store. Each request
  comes with the world it meets.
\<close>

datatype request =
    PostRooms json
  | GetRooms string
  | PostTokens string json
  | PostClose string

fun handle :: "world \<Rightarrow> request \<Rightarrow> table \<Rightarrow> outcome" where
  "handle w (PostRooms b) t = post_rooms w b t"
| "handle w (GetRooms i) t = get_rooms w i t"
| "handle w (PostTokens i b) t = post_tokens w i b t"
| "handle w (PostClose i) t = post_close w i t"

fun run :: "(world \<times> request) list \<Rightarrow> table \<Rightarrow> table" where
  "run [] t = t"
| "run ((w, q) # es) t = run es (tbl (handle w q t))"

fun answers :: "(world \<times> request) list \<Rightarrow> table \<Rightarrow> (request \<times> response) list" where
  "answers [] t = []"
| "answers ((w, q) # es) t = (q, resp (handle w q t)) # answers es (tbl (handle w q t))"

text \<open>The id of the room an exchange created, if it created one.\<close>

fun created :: "request \<times> response \<Rightarrow> string list" where
  "created (PostRooms b, r) =
     (case body r of
        RoomReply x \<Rightarrow>
          (case x ''id'' of Some (JStr i) \<Rightarrow> if status r = 200 then [i] else [] | _ \<Rightarrow> [])
      | _ \<Rightarrow> [])"
| "created (q, r) = []"

section \<open>The requirements in the spec's words\<close>

text \<open>
  Step 1 of \<^verbatim>\<open>issueToken\<close>: the role is one of the three enumerated values and the display
  name is 1 to 50 characters.
\<close>

definition token_request_ok :: "json \<Rightarrow> bool" where
  "token_request_ok b =
     (case b of
        JObj m \<Rightarrow>
          (case m ''role'' of
             Some (JStr r) \<Rightarrow> r = ''host'' \<or> r = ''cohost'' \<or> r = ''participant''
           | _ \<Rightarrow> False) \<and>
          (case m ''displayName'' of
             Some (JStr n) \<Rightarrow> 1 \<le> length n \<and> length n \<le> 50
           | _ \<Rightarrow> False)
      | _ \<Rightarrow> False)"

text \<open>
  The field constraints of \<^verbatim>\<open>create\<close>: a name of 1 to 100 characters, a capacity in the
  range 1 to 11 when there is one, start and end that are date-times, a time zone, and a
  boolean flag when there is one.
\<close>

definition room_request_ok :: "json \<Rightarrow> bool" where
  "room_request_ok b =
     (case b of
        JObj m \<Rightarrow>
          (case m ''name'' of Some (JStr n) \<Rightarrow> 1 \<le> length n \<and> length n \<le> 100 | _ \<Rightarrow> False) \<and>
          (case m ''capacity'' of None \<Rightarrow> True | Some (JNum x) \<Rightarrow> 1 \<le> x \<and> x \<le> 11 | _ \<Rightarrow> False) \<and>
          (case m ''startAt'' of Some (JStr s) \<Rightarrow> is_datetime s | _ \<Rightarrow> False) \<and>
          (case m ''endAt'' of Some (JStr e) \<Rightarrow> is_datetime e | _ \<Rightarrow> False) \<and>
          (case m ''timezone'' of Some (JStr z) \<Rightarrow> True | _ \<Rightarrow> False) \<and>
          (case m ''recurring'' of None \<Rightarrow> True | Some (JBool r) \<Rightarrow> True | _ \<Rightarrow> False)
      | _ \<Rightarrow> False)"

text \<open>The capacity of the data model: an integer, 1 to 11 inclusive.\<close>

definition integer_capacity :: "rat \<Rightarrow> bool" where
  "integer_capacity x = (of_int \<lfloor>x\<rfloor> = x \<and> 1 \<le> x \<and> x \<le> 11)"

section \<open>Sample data\<close>

text \<open>A plain rendering of validation issues, for the examples.\<close>

definition code_name :: "zod_code \<Rightarrow> string" where
  "code_name c =
     (case c of
        invalid_type \<Rightarrow> ''invalid_type''
      | too_small \<Rightarrow> ''too_small''
      | too_big \<Rightarrow> ''too_big''
      | invalid_string \<Rightarrow> ''invalid_string''
      | invalid_enum_value \<Rightarrow> ''invalid_enum_value'')"

definition render_issues :: "zod_issue list \<Rightarrow> string" where
  "render_issues issues =
     concat (map (\<lambda>(path, c). code_name c @ '' at '' @ concat (map (\<lambda>k. ''/'' @ k) path) @ ''; '') issues)"

text \<open>
  The five character references that every HTML parser knows, written with their
  semicolon, for the examples.
\<close>

definition predefined_entities :: decoder where
  "predefined_entities cs =
     (if take 4 cs = ''amp;'' then Some (''&'', 4)
      else if take 3 cs = ''lt;'' then Some (''<'', 3)
      else if take 3 cs = ''gt;'' then Some (''>'', 3)
      else if take 5 cs = ''quot;'' then Some ([CHR 0x22], 5)
      else if take 5 cs = ''apos;'' then Some ([CHR 0x27], 5)
      else None)"

definition world0 :: world where
  "world0 = \<lparr>ZodError_message = render_issues, decodeEntity = predefined_entities,
             nanoid_out = ''V1StGXR8_Z'', store_error = None, now = 1735722000,
             JWT_SECRET = None, LIVEKIT_API_KEY = Some ''devkey'',
             LIVEKIT_API_SECRET = Some ''devsecret'', LIVEKIT_URL = Some ''wss://lk.example''\<rparr>"

definition standup :: json where
  "standup = JObj [''name'' \<mapsto> JStr ''Standup'', ''capacity'' \<mapsto> JNum 5,
                  ''startAt'' \<mapsto> JStr ''2025-01-01T09:00:00Z'',
                  ''endAt'' \<mapsto> JStr ''2025-01-01T09:30:00Z'',
                  ''timezone'' \<mapsto> JStr ''UTC'', ''recurring'' \<mapsto> JBool False]"

definition open_room :: row where
  "open_room = [''id'' \<mapsto> JStr ''r1'', ''name'' \<mapsto> JStr ''Standup'', ''state'' \<mapsto> JStr ''scheduled'']"

definition closed_room :: row where
  "closed_room = [''id'' \<mapsto> JStr ''r1'', ''name'' \<mapsto> JStr ''Standup'', ''state'' \<mapsto> JStr ''closed'']"

definition token_request :: "string \<Rightarrow> string \<Rightarrow> json" where
  "token_request r n = JObj [''role'' \<mapsto> JStr r, ''displayName'' \<mapsto> JStr n]"

definition room_request :: "json option \<Rightarrow> json" where
  "room_request c =
     JObj ([''name'' \<mapsto> JStr ''Standup'',
            ''startAt'' \<mapsto> JStr ''2025-01-01T09:00:00Z'',
            ''endAt'' \<mapsto> JStr ''2025-01-01T09:30:00Z'',
            ''timezone'' \<mapsto> JStr ''UTC''] (''capacity'' := c))"

definition standup_input :: RoomInput where
  "standup_input =
     \<lparr>name = ''Standup'', capacity = 11, startAt = ''2025-01-01T09:00:00Z'',
      endAt = ''2025-01-01T09:30:00Z'', timezone = ''UTC'', recurring = False\<rparr>"

definition own_id_request :: json where
  "own_id_request =
     JObj [''name'' \<mapsto> JStr ''Standup'',
           ''startAt'' \<mapsto> JStr ''2025-01-01T09:00:00Z'',
           ''endAt'' \<mapsto> JStr ''2025-01-01T09:30:00Z'',
           ''timezone'' \<mapsto> JStr ''UTC'',
           ''id'' \<mapsto> JStr ''mine'', ''state'' \<mapsto> JStr ''closed'']"

definition three_creates :: "(world \<times> request) list" where
  "three_creates =
     [(world0, PostRooms standup),
      (world0\<lparr>nanoid_out := ''Uakgb_J5m9''\<rparr>, PostRooms own_id_request),
      (world0, PostRooms standup)]"

definition later_requests :: "(world \<times> request) list" where
  "later_requests =
     [(world0, PostRooms standup),
      (world0, PostTokens ''r1'' (token_request ''host'' ''Ann'')),
      (world0, PostClose ''r1''),
      (world0, GetRooms ''r1'')]"

section \<open>Validation of a token request\<close>

lemma both_Inr: "both a b = Inr (x, y) \<longleftrightarrow> a = Inr x \<and> b = Inr y"
  by (cases a; cases b) auto

lemma z_string_min_max_Inr:
  "z_string_min_max lo hi k v = Inr s \<longleftrightarrow> v = Some (JStr s) \<and> lo \<le> length s \<and> length s \<le> hi"
  by (auto simp: z_string_min_max_def split: option.splits json.splits)

lemma z_enum_Inr: "z_enum os k v = Inr s \<longleftrightarrow> v = Some (JStr s) \<and> s \<in> set os"
  by (auto simp: z_enum_def split: option.splits json.splits)

lemma TokenSchema_parse_Inr:
  "TokenSchema_parse b = Inr d \<longleftrightarrow>
     (\<exists>m. b = JObj m \<and> m ''role'' = Some (JStr (role d)) \<and>
          role d \<in> set [''host'', ''cohost'', ''participant''] \<and>
          m ''displayName'' = Some (JStr (displayName d)) \<and>
          1 \<le> length (displayName d) \<and> length (displayName d) \<le> 50)"
proof (cases b)
  case (JObj m)
  show ?thesis
  proof (cases "both (z_enum [''host'', ''cohost'', ''participant''] ''role'' (m ''role''))
                     (z_string_min_max 1 50 ''displayName'' (m ''displayName''))")
    case (Inl issues)
    then have "\<not> (z_enum [''host'', ''cohost'', ''participant''] ''role'' (m ''role'') = Inr (role d) \<and>
      z_string_min_max 1 50 ''displayName'' (m ''displayName'') = Inr (displayName d))"
      using both_Inr [of _ _ "role d" "displayName d"] by auto
    with Inl JObj show ?thesis
      by (simp add: TokenSchema_parse_def z_enum_Inr z_string_min_max_Inr)
  next
    case (Inr p)
    obtain r n where p: "p = (r, n)" by (cases p)
    with Inr have "z_enum [''host'', ''cohost'', ''participant''] ''role'' (m ''role'') = Inr r"
      "z_string_min_max 1 50 ''displayName'' (m ''displayName'') = Inr n"
      by (simp_all add: both_Inr)
    then have *: "m ''role'' = Some (JStr r)" "r \<in> set [''host'', ''cohost'', ''participant'']"
       "m ''displayName'' = Some (JStr n)" "1 \<le> length n" "length n \<le> 50"
      by (simp_all add: z_enum_Inr z_string_min_max_Inr)
    have "TokenSchema_parse b = Inr \<lparr>role = r, displayName = n\<rparr>"
      using JObj Inr p by (simp add: TokenSchema_parse_def)
    with * JObj show ?thesis by (cases d) auto
  qed
qed (simp_all add: TokenSchema_parse_def)

lemma token_request_ok_JObj:
  "token_request_ok b \<longleftrightarrow>
     (\<exists>m r n. b = JObj m \<and> m ''role'' = Some (JStr r) \<and>
        r \<in> set [''host'', ''cohost'', ''participant''] \<and>
        m ''displayName'' = Some (JStr n) \<and> 1 \<le> length n \<and> length n \<le> 50)"
  by (auto simp: token_request_ok_def split: json.split option.split)

lemma TokenSchema_parse_ok: "token_request_ok b \<longleftrightarrow> (\<exists>d. TokenSchema_parse b = Inr d)"
proof
  assume "token_request_ok b"
  then obtain m r n where "b = JObj m" "m ''role'' = Some (JStr r)"
    "r \<in> set [''host'', ''cohost'', ''participant'']"
    "m ''displayName'' = Some (JStr n)" "1 \<le> length n" "length n \<le> 50"
    unfolding token_request_ok_JObj by blast
  then have "TokenSchema_parse b = Inr \<lparr>role = r, displayName = n\<rparr>"
    by (simp add: TokenSchema_parse_Inr)
  then show "\<exists>d. TokenSchema_parse b = Inr d" ..
next
  assume "\<exists>d. TokenSchema_parse b = Inr d"
  then show "token_request_ok b"
    unfolding token_request_ok_JObj TokenSchema_parse_Inr by blast
qed

lemma TokenSchema_parse_cases:
  "(token_request_ok b \<and> (\<exists>d. TokenSchema_parse b = Inr d)) \<or>
   (\<not> token_request_ok b \<and> (\<exists>issues. TokenSchema_parse b = Inl issues))"
  using TokenSchema_parse_ok [of b] by (cases "TokenSchema_parse b") auto

section \<open>Issuing a token\<close>

text \<open>
  C1. A token request with a valid role and display name, for a room that is not in the
  store or that is there with state \<^verbatim>\<open>closed\<close>, is answered with status 400 and the one
  message \<^verbatim>\<open>Room not available\<close>, after one read of the store: the answer is the same term
  in both cases, so nothing in it tells a room that never existed from a closed one.
\<close>

theorem unavailable_room_one_answer:
  assumes "token_request_ok b"
    and "t i = None \<or> (\<exists>r. t i = Some r \<and> r ''state'' = Some (JStr ''closed''))"
  shows "post_tokens w i b t =
           respond 400 (ErrorReply ''Room not available'') t [Select i]"
proof -
  from assms(1) obtain d where "TokenSchema_parse b = Inr d"
    using TokenSchema_parse_ok by blast
  with assms(2) show ?thesis
    by (auto simp: post_tokens_def rooms_select_def split: option.splits)
qed

theorem unavailable_room_one_answer_witness:
  "token_request_ok (token_request ''host'' ''Ann'') \<and>
   post_tokens world0 ''r1'' (token_request ''host'' ''Ann'') Map.empty =
     respond 400 (ErrorReply ''Room not available'') Map.empty [Select ''r1''] \<and>
   post_tokens world0 ''r1'' (token_request ''host'' ''Ann'') [''r1'' \<mapsto> closed_room] =
     respond 400 (ErrorReply ''Room not available'') [''r1'' \<mapsto> closed_room] [Select ''r1'']"
proof -
  have ok: "token_request_ok (token_request ''host'' ''Ann'')"
    by (simp add: token_request_ok_def token_request_def)
  have closed: "closed_room ''state'' = Some (JStr ''closed'')"
    by (simp add: closed_room_def)
  show ?thesis
    using ok closed
      unavailable_room_one_answer [of "token_request ''host'' ''Ann''" Map.empty "''r1''" world0]
      unavailable_room_one_answer [of "token_request ''host'' ''Ann''" "[''r1'' \<mapsto> closed_room]" "''r1''" world0]
    by simp
qed

text \<open>
  C2. The role and the display name are checked before the room is looked up: a request
  that fails the check is answered with status 400 and \<^verbatim>\<open>Invalid token data\<close>, the store is
  not called and the table is as it was, whatever the room's state; a request that passes
  reads the store once. A display name of length 0 or 51 fails the check.
\<close>

theorem validation_before_lookup:
  "(\<not> token_request_ok b \<longrightarrow>
      post_tokens w i b t = respond 400 (ErrorReply ''Invalid token data'') t []) \<and>
   (token_request_ok b \<longrightarrow> calls (post_tokens w i b t) = [Select i]) \<and>
   (\<forall>m n. b = JObj m \<and> m ''displayName'' = Some (JStr n) \<and> (length n = 0 \<or> length n = 51) \<longrightarrow>
      post_tokens w i b t = respond 400 (ErrorReply ''Invalid token data'') t [])"
proof -
  have bad: "post_tokens w i b t = respond 400 (ErrorReply ''Invalid token data'') t []"
    if "\<not> token_request_ok b"
  proof -
    from that obtain issues where "TokenSchema_parse b = Inl issues"
      using TokenSchema_parse_cases [of b] by blast
    then show ?thesis by (simp add: post_tokens_def)
  qed
  have good: "calls (post_tokens w i b t) = [Select i]" if "token_request_ok b"
  proof -
    from that obtain d where "TokenSchema_parse b = Inr d"
      using TokenSchema_parse_ok by blast
    then show ?thesis
      by (simp add: post_tokens_def respond_def jwt_sign_def Let_def split: sum.split option.split)
  qed
  have "\<not> token_request_ok b"
    if "b = JObj m" "m ''displayName'' = Some (JStr n)" "length n = 0 \<or> length n = 51" for m n
    using that by (auto simp: token_request_ok_def)
  with bad good show ?thesis by blast
qed

theorem validation_before_lookup_witness:
  "\<not> token_request_ok (token_request ''host'' '''') \<and>
   post_tokens world0 ''r1'' (token_request ''host'' '''') [''r1'' \<mapsto> open_room] =
     respond 400 (ErrorReply ''Invalid token data'') [''r1'' \<mapsto> open_room] [] \<and>
   post_tokens world0 ''r1'' (token_request ''host'' (replicate 51 CHR ''a'')) [''r1'' \<mapsto> closed_room] =
     respond 400 (ErrorReply ''Invalid token data'') [''r1'' \<mapsto> closed_room] [] \<and>
   post_tokens world0 ''r1'' (token_request ''guest'' ''Ann'') Map.empty =
     respond 400 (ErrorReply ''Invalid token data'') Map.empty [] \<and>
   token_request_ok (token_request ''host'' ''Ann'') \<and>
   calls (post_tokens world0 ''r1'' (token_request ''host'' ''Ann'') [''r1'' \<mapsto> open_room]) =
     [Select ''r1'']"
proof -
  have bad: "\<not> token_request_ok (token_request ''host'' '''')"
    "\<not> token_request_ok (token_request ''host'' (replicate 51 CHR ''a''))"
    "\<not> token_request_ok (token_request ''guest'' ''Ann'')"
    by (simp_all add: token_request_ok_def token_request_def)
  have ok: "token_request_ok (token_request ''host'' ''Ann'')"
    by (simp add: token_request_ok_def token_request_def)
  show ?thesis
    using bad ok
      validation_before_lookup [of "token_request ''host'' ''''" world0 "''r1''" "[''r1'' \<mapsto> open_room]"]
      validation_before_lookup [of "token_request ''host'' (replicate 51 CHR ''a'')" world0 "''r1''"
        "[''r1'' \<mapsto> closed_room]"]
      validation_before_lookup [of "token_request ''guest'' ''Ann''" world0 "''r1''" Map.empty]
      validation_before_lookup [of "token_request ''host'' ''Ann''" world0 "''r1''" "[''r1'' \<mapsto> open_room]"]
    by simp
qed

lemma timespan_15m: "timespan ''15m'' = Some (15 * 60)"
  by (simp add: timespan_def is_digit_def unit_seconds_def number_of_def digit_val_def)

lemma secret_or_default_nonempty: "secret_or_default e \<noteq> []"
  by (simp add: secret_or_default_def split: option.split)

lemma jwt_sign_15m:
  "jwt_sign p (secret_or_default e) ''15m'' u =
     Inr \<lparr>payload = p, iat = u, exp_time = u + 15 * 60, signed_with = secret_or_default e\<rparr>"
  by (simp add: jwt_sign_def timespan_15m secret_or_default_nonempty)

lemma post_tokens_cases:
  "post_tokens w i b t =
     (case TokenSchema_parse b of
        Inl issues \<Rightarrow> respond 400 (ErrorReply ''Invalid token data'') t []
      | Inr d \<Rightarrow>
          (case rooms_select (store_error w) i t of
             Inl m \<Rightarrow> respond 400 (ErrorReply ''Room not available'') t [Select i]
           | Inr found \<Rightarrow>
               if found ''state'' = Some (JStr ''closed'')
               then respond 400 (ErrorReply ''Room not available'') t [Select i]
               else respond 200
                      (TokenReply
                         \<lparr>payload = [''roomId'' \<mapsto> JStr i, ''role'' \<mapsto> JStr (role d),
                                     ''identity'' \<mapsto>
                                       JStr (sanitizeHtml (decodeEntity w) (displayName d))],
                          iat = now w, exp_time = now w + 15 * 60,
                          signed_with = secret_or_default (JWT_SECRET w)\<rparr>)
                      t [Select i]))"
  by (simp add: post_tokens_def jwt_sign_15m Let_def split: sum.split)

subsection \<open>What the sanitizer returns\<close>












lemma scan_text_prefix:
  "CHR ''<'' \<notin> set pre \<Longrightarrow> CHR ''&'' \<notin> set pre \<Longrightarrow>
     scan decode Text (pre @ rest) = escapeHtml pre @ scan decode Text rest"
  by (induction pre) (auto simp: in_text_def escapeHtml_def)

lemma is_alpha_in_name:
  "is_alpha c \<Longrightarrow> c \<noteq> CHR ''/'' \<and> c \<noteq> CHR ''>'' \<and> \<not> is_space c"
  by (auto simp: is_alpha_def is_space_def lower_def)

lemma is_alpha_starts_tag:
  "is_alpha c \<Longrightarrow> c \<noteq> CHR ''!'' \<and> c \<noteq> CHR ''?'' \<and> c \<noteq> CHR ''/''"
  by (auto simp: is_alpha_def lower_def)

lemma scan_tag_name:
  "\<forall>x\<in>set nm. is_alpha x \<Longrightarrow>
     scan decode (InTagName n) (nm @ rest) = scan decode (InTagName (n @ map lower nm)) rest"
  by (induction nm arbitrary: n) (auto dest: is_alpha_in_name)

lemma is_space_gt: "\<not> is_space (CHR ''>'')"
  by (simp add: is_space_def)

lemma step_open_tag_end:
  "in_open_tag n s \<Longrightarrow> step decode s (CHR ''>'') cs = ([], open_tag_end n)"
  unfolding in_open_tag_def
  by (elim insertE emptyE)
    (simp_all add: before_attribute_name_def after_attribute_name_def is_space_gt)

lemma step_in_open_tag:
  "in_open_tag n s \<Longrightarrow> c \<noteq> CHR ''>'' \<Longrightarrow> c \<noteq> CHR 0x22 \<Longrightarrow> c \<noteq> CHR 0x27 \<Longrightarrow>
     fst (step decode s c cs) = [] \<and> in_open_tag n (snd (step decode s c cs))"
  unfolding in_open_tag_def
  by (elim insertE emptyE) (simp_all add: before_attribute_name_def after_attribute_name_def)

lemma scan_attributes:
  "in_open_tag n s \<Longrightarrow> \<forall>x\<in>set a. x \<noteq> CHR ''>'' \<and> x \<noteq> CHR 0x22 \<and> x \<noteq> CHR 0x27 \<Longrightarrow>
     scan decode s (a @ CHR ''>'' # rest) = scan decode (open_tag_end n) rest"
proof (induction a arbitrary: s)
  case Nil
  then show ?case by (simp add: step_open_tag_end)
next
  case (Cons c a)
  from Cons.prems step_in_open_tag [of n s c decode "a @ CHR ''>'' # rest"]
  have "fst (step decode s c (a @ CHR ''>'' # rest)) = []"
    "in_open_tag n (snd (step decode s c (a @ CHR ''>'' # rest)))"
    by simp_all
  with Cons.IH [of "snd (step decode s c (a @ CHR ''>'' # rest))"] Cons.prems
  show ?case by simp
qed

lemma open_tag_dropped:
  assumes "is_alpha c" and "\<forall>x\<in>set nm. is_alpha x"
    and "a = [] \<or> hd a = CHR ''/'' \<or> is_space (hd a)"
    and "\<forall>x\<in>set a. x \<noteq> CHR ''>'' \<and> x \<noteq> CHR 0x22 \<and> x \<noteq> CHR 0x27"
  shows "scan decode Text (CHR ''<'' # c # nm @ a @ CHR ''>'' # rest) =
           scan decode (open_tag_end (map lower (c # nm))) rest"
proof -
  let ?n = "map lower (c # nm)"
  have "scan decode Text (CHR ''<'' # c # nm @ a @ CHR ''>'' # rest) =
      scan decode BeforeTagName (c # nm @ a @ CHR ''>'' # rest)"
    by (simp add: in_text_def)
  also have "\<dots> = scan decode (InTagName [lower c]) (nm @ a @ CHR ''>'' # rest)"
    using is_alpha_starts_tag [OF assms(1)] assms(1) by simp
  also have "\<dots> = scan decode (InTagName ?n) (a @ CHR ''>'' # rest)"
    using scan_tag_name [OF assms(2), of decode "[lower c]" "a @ CHR ''>'' # rest"] by simp
  also have "\<dots> = scan decode (open_tag_end ?n) rest"
  proof (cases a)
    case Nil
    then show ?thesis by (simp add: before_attribute_name_def)
  next
    case (Cons x xs)
    with assms(3) have x: "x = CHR ''/'' \<or> is_space x" by simp
    from assms(4) Cons have x': "x \<noteq> CHR ''>''"
      and xs: "\<forall>x\<in>set xs. x \<noteq> CHR ''>'' \<and> x \<noteq> CHR 0x22 \<and> x \<noteq> CHR 0x27"
      by simp_all
    from x x' have tag: "in_open_tag ?n (before_attribute_name ?n x)"
      unfolding in_open_tag_def before_attribute_name_def by (simp del: list.map)
    have "scan decode (InTagName ?n) (x # xs @ CHR ''>'' # rest) =
        scan decode (before_attribute_name ?n x) (xs @ CHR ''>'' # rest)"
      using x by (elim disjE; simp del: list.map)
    also have "\<dots> = scan decode (open_tag_end ?n) rest"
      by (rule scan_attributes [OF tag xs])
    finally show ?thesis using Cons by simp
  qed
  finally show ?thesis .
qed

lemma scan_closing_tag:
  "s \<in> {InClosingTagName, AfterClosingTagName, InDeclaration} \<Longrightarrow> CHR ''>'' \<notin> set a \<Longrightarrow>
     scan decode s (a @ CHR ''>'' # rest) = scan decode Text rest"
  by (induction a arbitrary: s) (auto simp: in_declaration_def)

lemma closing_tag_dropped:
  assumes "is_alpha c" and "CHR ''>'' \<notin> set a"
  shows "scan decode Text (CHR ''<'' # CHR ''/'' # c # a @ CHR ''>'' # rest) = scan decode Text rest"
  using assms scan_closing_tag [of InClosingTagName a decode rest]
  by (auto simp: in_text_def is_space_def dest: is_alpha_in_name)

text \<open>
  After plain text, an opening tag goes with its attributes (here: a name of letters and,
  set off by a space or a slash, anything without \<^verbatim>\<open>>\<close> and quotes), and so does a closing
  tag: the name is sanitized as it would be without the tag. The element is one whose
  content is text.
\<close>

lemma sanitizeHtml_drops_opening_tag:
  assumes "CHR ''<'' \<notin> set pre" and "CHR ''&'' \<notin> set pre"
    and "is_alpha c" and "\<forall>x\<in>set nm. is_alpha x" and "map lower (c # nm) \<notin> set nonTextTags"
    and "a = [] \<or> hd a = CHR ''/'' \<or> is_space (hd a)"
    and "\<forall>x\<in>set a. x \<noteq> CHR ''>'' \<and> x \<noteq> CHR 0x22 \<and> x \<noteq> CHR 0x27"
  shows "sanitizeHtml decode (pre @ CHR ''<'' # c # nm @ a @ CHR ''>'' # rest) =
           sanitizeHtml decode (pre @ rest)"
  using open_tag_dropped [OF assms(3,4,6,7), of decode rest] assms(5)
  by (simp add: sanitizeHtml_def scan_text_prefix [OF assms(1,2)] open_tag_end_def del: list.map)

lemma sanitizeHtml_drops_closing_tag:
  assumes "CHR ''<'' \<notin> set pre" and "CHR ''&'' \<notin> set pre"
    and "is_alpha c" and "CHR ''>'' \<notin> set a"
  shows "sanitizeHtml decode (pre @ CHR ''<'' # CHR ''/'' # c # a @ CHR ''>'' # rest) =
           sanitizeHtml decode (pre @ rest)"
  using closing_tag_dropped [OF assms(3,4), of decode rest]
  by (simp add: sanitizeHtml_def scan_text_prefix [OF assms(1,2)])

lemmas sanitize_simps =
  sanitizeHtml_def in_text_def escape_char_def escapeHtml_def open_tag_end_def
  before_attribute_name_def after_attribute_name_def in_declaration_def closes_def
  is_alpha_def is_space_def lower_def nonTextTags_def predefined_entities_def


text \<open>
  Tags go with their attributes, also when a quoted value holds a \<^verbatim>\<open>>\<close>; the content of a
  script element goes, whatever the case of the tag; comments go; a \<^verbatim>\<open><\<close> that starts no
  tag, a \<^verbatim>\<open>>\<close> and an ampersand stay as text and are written as character references; a
  character reference in the name comes out as it went in.
\<close>

lemma sanitize_attributes:
  "sanitizeHtml decode (''<a title='' @ [CHR 0x22] @ ''>'' @ [CHR 0x22] @ ''>x</a>'') = ''x'' \<and>
   sanitizeHtml decode ''<B CLASS=q onclick=alert(1)>Bob</B> <img src=x onerror=y/>!'' = ''Bob !'' \<and>
   sanitizeHtml decode ''<SCRIPT type=x>if (a<b) alert(1)</SCRIPT >Ann<style>p{}</style>'' = ''Ann'' \<and>
   sanitizeHtml decode ''x<!-- c > d -->y'' = ''xy''"
  by (simp add: sanitize_simps)

lemma sanitize_text:
  "sanitizeHtml decode ''a < b'' = ''a &lt; b'' \<and>
   sanitizeHtml decode ''a > b'' = ''a &gt; b'' \<and>
   sanitizeHtml decode ''a<'' = ''a&lt;'' \<and>
   sanitizeHtml decode ''a<b'' = ''a'' \<and>
   sanitizeHtml predefined_entities ''Tom & Jerry'' = ''Tom &amp; Jerry'' \<and>
   sanitizeHtml predefined_entities ''Tom &amp; Jerry &lt;3'' = ''Tom &amp; Jerry &lt;3''"
  by (simp add: sanitize_simps)




text \<open>
  C10. The display name \<^verbatim>\<open><b></b>\<close> has 7 characters and passes the check of 1 to 50
  characters; it is markup only, its sanitized form is empty, and the token that is issued
  for it carries the empty identity: the length is checked before the name is sanitized
  and not again after.
\<close>

theorem markup_only_name_gives_empty_identity:
  "token_request_ok (token_request ''participant'' ''<b></b>'') \<and>
   length ''<b></b>'' = 7 \<and>
   sanitizeHtml (decodeEntity world0) ''<b></b>'' = [] \<and>
   resp (post_tokens world0 ''r1'' (token_request ''participant'' ''<b></b>'') [''r1'' \<mapsto> open_room]) =
     \<lparr>status = 200,
      body = TokenReply
        \<lparr>payload = [''roomId'' \<mapsto> JStr ''r1'', ''role'' \<mapsto> JStr ''participant'',
                     ''identity'' \<mapsto> JStr []],
         iat = 1735722000, exp_time = 1735722900, signed_with = ''secret''\<rparr>\<rparr>"
proof -
  have parse: "TokenSchema_parse (token_request ''participant'' ''<b></b>'') =
      Inr \<lparr>role = ''participant'', displayName = ''<b></b>''\<rparr>"
    by (simp add: TokenSchema_parse_Inr token_request_def)
  have san: "sanitizeHtml decode ''<b></b>'' = []" for decode
    by (simp add: sanitize_simps)
  have ok: "token_request_ok (token_request ''participant'' ''<b></b>'')"
    by (simp add: token_request_ok_def token_request_def)
  show ?thesis
    using ok san
    by (simp add: post_tokens_cases parse rooms_select_def world0_def open_room_def respond_def
          secret_or_default_def)
qed

lemma post_tokens_001_cases:
  "post_tokens_001 toJwt w i b t =
     (case TokenSchema_parse b of
        Inl issues \<Rightarrow> respond 400 (ErrorReply (ZodError_message w issues)) t []
      | Inr d \<Rightarrow>
          (case rooms_select (store_error w) i t of
             Inl m \<Rightarrow> respond 400 (ErrorReply ''Room not available'') t [Select i]
           | Inr found \<Rightarrow>
               if found ''state'' = Some (JStr ''closed'')
               then respond 400 (ErrorReply ''Room not available'') t [Select i]
               else
                 (case toJwt (LIVEKIT_API_KEY w) (LIVEKIT_API_SECRET w)
                            (sanitizeHtml (decodeEntity w) (displayName d)) i
                     of
                       Inl m \<Rightarrow> respond 400 (ErrorReply m) t [Select i]
                     | Inr livekitToken \<Rightarrow>
                         respond 200 (LiveKitReply livekitToken (LIVEKIT_URL w)) t [Select i])))"
  by (simp add: post_tokens_001_def Let_def split: sum.split)

text \<open>
  The token of the jsonwebtoken handler (part_000) is stamped with the time of signing and
  expires exactly 15 minutes later.
\<close>

lemma post_tokens_expiry:
  "body (resp (post_tokens w i b t)) = TokenReply tok \<Longrightarrow>
     iat tok = now w \<and> exp_time tok = now w + 15 * 60"
  by (auto simp: post_tokens_cases respond_def split: sum.splits if_splits)

text \<open>
  The reply of the LiveKit handler (part_001) does not depend on the clock: the handler
  reads no time and passes no lifetime.
\<close>

lemma post_tokens_001_clock:
  "post_tokens_001 toJwt (w\<lparr>now := u\<rparr>) i b t = post_tokens_001 toJwt w i b t"
  by (simp add: post_tokens_001_cases split: sum.split)


section \<open>Creating a room\<close>

lemma z_number_Inr:
  "z_number_min_max_default lo hi d k v = Inr x \<longleftrightarrow>
     (v = None \<and> x = d) \<or> (v = Some (JNum x) \<and> lo \<le> x \<and> x \<le> hi)"
  by (auto simp: z_number_min_max_default_def split: option.splits json.splits)

lemma z_string_datetime_Inr:
  "z_string_datetime k v = Inr s \<longleftrightarrow> v = Some (JStr s) \<and> is_datetime s"
  by (auto simp: z_string_datetime_def split: option.splits json.splits)

lemma z_string_Inr: "z_string k v = Inr s \<longleftrightarrow> v = Some (JStr s)"
  by (auto simp: z_string_def split: option.splits json.splits)

lemma z_boolean_Inr:
  "z_boolean_default d k v = Inr r \<longleftrightarrow> (v = None \<and> r = d) \<or> v = Some (JBool r)"
  by (auto simp: z_boolean_default_def split: option.splits json.splits)

lemma both_Inl: "(\<exists>e. both a b = Inl e) \<longleftrightarrow> (\<exists>e. a = Inl e) \<or> (\<exists>e. b = Inl e)"
  by (cases a; cases b) auto

lemma RoomSchema_parse_Inr:
  "RoomSchema_parse b = Inr d \<longleftrightarrow>
     (\<exists>m. b = JObj m \<and>
        z_string_min_max 1 100 ''name'' (m ''name'') = Inr (name d) \<and>
        z_number_min_max_default 1 11 11 ''capacity'' (m ''capacity'') = Inr (capacity d) \<and>
        z_string_datetime ''startAt'' (m ''startAt'') = Inr (startAt d) \<and>
        z_string_datetime ''endAt'' (m ''endAt'') = Inr (endAt d) \<and>
        z_string ''timezone'' (m ''timezone'') = Inr (timezone d) \<and>
        z_boolean_default False ''recurring'' (m ''recurring'') = Inr (recurring d))"
proof (cases b)
  case (JObj m)
  let ?p = "both (z_string_min_max 1 100 ''name'' (m ''name''))
                (both (z_number_min_max_default 1 11 11 ''capacity'' (m ''capacity''))
                (both (z_string_datetime ''startAt'' (m ''startAt''))
                (both (z_string_datetime ''endAt'' (m ''endAt''))
                (both (z_string ''timezone'' (m ''timezone''))
                      (z_boolean_default False ''recurring'' (m ''recurring''))))))"
  have "RoomSchema_parse b = Inr d \<longleftrightarrow>
          ?p = Inr (name d, capacity d, startAt d, endAt d, timezone d, recurring d)"
    using JObj by (cases d) (auto simp: RoomSchema_parse_def split: sum.splits)
  then show ?thesis using JObj by (simp add: both_Inr)
qed (simp_all add: RoomSchema_parse_def)

lemma string_case:
  "(case v of Some (JStr n) \<Rightarrow> P n | _ \<Rightarrow> False) \<longleftrightarrow> (\<exists>n. v = Some (JStr n) \<and> P n)"
  by (auto split: option.split json.split)

lemma number_case:
  "(case v of None \<Rightarrow> True | Some (JNum x) \<Rightarrow> Q x | _ \<Rightarrow> False) \<longleftrightarrow>
   v = None \<or> (\<exists>x. v = Some (JNum x) \<and> Q x)"
  by (auto split: option.split json.split)

lemma boolean_case:
  "(case v of None \<Rightarrow> True | Some (JBool r) \<Rightarrow> True | _ \<Rightarrow> False) \<longleftrightarrow>
   v = None \<or> (\<exists>r. v = Some (JBool r))"
  by (auto split: option.split json.split)

lemma room_request_ok_JObj:
  "room_request_ok b \<longleftrightarrow>
     (\<exists>m. b = JObj m \<and>
        (\<exists>n. m ''name'' = Some (JStr n) \<and> 1 \<le> length n \<and> length n \<le> 100) \<and>
        (m ''capacity'' = None \<or> (\<exists>x. m ''capacity'' = Some (JNum x) \<and> 1 \<le> x \<and> x \<le> 11)) \<and>
        (\<exists>s. m ''startAt'' = Some (JStr s) \<and> is_datetime s) \<and>
        (\<exists>e. m ''endAt'' = Some (JStr e) \<and> is_datetime e) \<and>
        (\<exists>z. m ''timezone'' = Some (JStr z)) \<and>
        (m ''recurring'' = None \<or> (\<exists>r. m ''recurring'' = Some (JBool r))))"
proof (cases b)
  case (JObj m)
  have "(case m ''timezone'' of Some (JStr z) \<Rightarrow> True | _ \<Rightarrow> False) \<longleftrightarrow>
        (\<exists>z. m ''timezone'' = Some (JStr z))"
    using string_case [of "\<lambda>_. True" "m ''timezone''"] by simp
  with JObj show ?thesis
    by (simp add: room_request_ok_def string_case number_case boolean_case)
qed (simp_all add: room_request_ok_def)

lemma RoomSchema_parse_ok: "room_request_ok b \<longleftrightarrow> (\<exists>d. RoomSchema_parse b = Inr d)"
proof
  assume "room_request_ok b"
  then obtain m n s e z where m: "b = JObj m"
    "m ''name'' = Some (JStr n)" "1 \<le> length n" "length n \<le> 100"
    "m ''capacity'' = None \<or> (\<exists>x. m ''capacity'' = Some (JNum x) \<and> 1 \<le> x \<and> x \<le> 11)"
    "m ''startAt'' = Some (JStr s)" "is_datetime s"
    "m ''endAt'' = Some (JStr e)" "is_datetime e"
    "m ''timezone'' = Some (JStr z)"
    "m ''recurring'' = None \<or> (\<exists>r. m ''recurring'' = Some (JBool r))"
    unfolding room_request_ok_JObj by blast
  from m(5) obtain c where c: "z_number_min_max_default 1 11 11 ''capacity'' (m ''capacity'') = Inr c"
    unfolding z_number_Inr by blast
  from m(11) obtain r where r: "z_boolean_default False ''recurring'' (m ''recurring'') = Inr r"
    unfolding z_boolean_Inr by blast
  from m c r have "RoomSchema_parse b =
      Inr \<lparr>name = n, capacity = c, startAt = s, endAt = e, timezone = z, recurring = r\<rparr>"
    by (simp add: RoomSchema_parse_Inr z_string_min_max_Inr z_string_datetime_Inr z_string_Inr)
  then show "\<exists>d. RoomSchema_parse b = Inr d" ..
next
  assume "\<exists>d. RoomSchema_parse b = Inr d"
  then show "room_request_ok b"
    unfolding room_request_ok_JObj RoomSchema_parse_Inr z_string_min_max_Inr z_number_Inr
      z_string_datetime_Inr z_string_Inr z_boolean_Inr
    by blast
qed

lemma RoomSchema_parse_cases:
  "(room_request_ok b \<and> (\<exists>d. RoomSchema_parse b = Inr d)) \<or>
   (\<not> room_request_ok b \<and> (\<exists>issues. RoomSchema_parse b = Inl issues))"
  using RoomSchema_parse_ok [of b] by (cases "RoomSchema_parse b") auto

lemma post_rooms_invalid:
  "RoomSchema_parse b = Inl issues \<Longrightarrow>
     post_rooms w b t = respond 400 (ErrorReply (ZodError_message w issues)) t []"
  by (simp add: post_rooms_def)

lemma post_rooms_valid:
  "RoomSchema_parse b = Inr d \<Longrightarrow>
     post_rooms w b t =
       (case rooms_insert (store_error w)
               ([''id'' \<mapsto> JStr (nanoid_out w)] ++ spread d ++ [''state'' \<mapsto> JStr ''scheduled'']) t of
          (Inl m, t') \<Rightarrow>
            respond 400 (ErrorReply m) t'
              [Insert ([''id'' \<mapsto> JStr (nanoid_out w)] ++ spread d ++ [''state'' \<mapsto> JStr ''scheduled''])]
        | (Inr made, t') \<Rightarrow>
            respond 200 (RoomReply made) t'
              [Insert ([''id'' \<mapsto> JStr (nanoid_out w)] ++ spread d ++ [''state'' \<mapsto> JStr ''scheduled''])])"
  by (simp add: post_rooms_def Let_def split: prod.split sum.split)

lemma new_row_fields:
  "([''id'' \<mapsto> JStr i] ++ spread d ++ [''state'' \<mapsto> JStr ''scheduled'']) ''id'' = Some (JStr i)"
  "([''id'' \<mapsto> JStr i] ++ spread d ++ [''state'' \<mapsto> JStr ''scheduled'']) ''state'' =
     Some (JStr ''scheduled'')"
  by (simp_all add: spread_def)

text \<open>
  C5. With the other fields of the body valid, \<^verbatim>\<open>create\<close> accepts a capacity exactly when
  it is a number from 1 to 11, an integer or not, and takes 11 when the body has none: a
  number below 1 is refused as too small, a number above 11 as too big, any value that is
  not a number as of the wrong type, and every refusal is answered with status 400 and
  the validation issues before the store is called. So 0 and 12 are refused, 1 and 11 are
  accepted, and so is 5.5.
\<close>

theorem capacity_check:
  assumes "RoomSchema_parse (JObj (m(''capacity'' := None))) = Inr d"
  shows "RoomSchema_parse (JObj (m(''capacity'' := v))) =
           (case v of
              None \<Rightarrow> Inr (d\<lparr>capacity := 11\<rparr>)
            | Some (JNum x) \<Rightarrow>
                if x < 1 then Inl [([''capacity''], too_small)]
                else if 11 < x then Inl [([''capacity''], too_big)]
                else Inr (d\<lparr>capacity := x\<rparr>)
            | Some _ \<Rightarrow> Inl [([''capacity''], invalid_type)]) \<and>
         (\<forall>issues. RoomSchema_parse (JObj (m(''capacity'' := v))) = Inl issues \<longrightarrow>
            post_rooms w (JObj (m(''capacity'' := v))) t =
              respond 400 (ErrorReply (ZodError_message w issues)) t [])"
proof -
  from assms have f:
    "z_string_min_max 1 100 ''name'' (m ''name'') = Inr (name d)"
    "z_string_datetime ''startAt'' (m ''startAt'') = Inr (startAt d)"
    "z_string_datetime ''endAt'' (m ''endAt'') = Inr (endAt d)"
    "z_string ''timezone'' (m ''timezone'') = Inr (timezone d)"
    "z_boolean_default False ''recurring'' (m ''recurring'') = Inr (recurring d)"
    by (simp_all add: RoomSchema_parse_Inr)
  have "RoomSchema_parse (JObj (m(''capacity'' := v))) =
           (case v of
              None \<Rightarrow> Inr (d\<lparr>capacity := 11\<rparr>)
            | Some (JNum x) \<Rightarrow>
                if x < 1 then Inl [([''capacity''], too_small)]
                else if 11 < x then Inl [([''capacity''], too_big)]
                else Inr (d\<lparr>capacity := x\<rparr>)
            | Some _ \<Rightarrow> Inl [([''capacity''], invalid_type)])"
    by (cases d)
      (use f in \<open>auto simp: RoomSchema_parse_def z_number_min_max_default_def
                   split: option.split json.split\<close>)
  then show ?thesis by (simp add: post_rooms_invalid)
qed

lemma world0_message:
  "ZodError_message world0 [([''capacity''], too_small)] = ''too_small at /capacity; ''"
  "ZodError_message world0 [([''capacity''], too_big)] = ''too_big at /capacity; ''"
  by (simp_all add: world0_def render_issues_def code_name_def)

lemma standup_parse: "RoomSchema_parse (room_request None) = Inr standup_input"
  by (simp add: RoomSchema_parse_Inr room_request_def standup_input_def z_string_min_max_Inr
        z_number_Inr z_string_datetime_Inr z_string_Inr z_boolean_Inr is_datetime_def
        is_digit_def datetime_tail_def)

theorem capacity_check_witness:
  "RoomSchema_parse (room_request None) = Inr standup_input \<and>
   capacity standup_input = 11 \<and>
   RoomSchema_parse (room_request (Some (JNum 0))) = Inl [([''capacity''], too_small)] \<and>
   RoomSchema_parse (room_request (Some (JNum 12))) = Inl [([''capacity''], too_big)] \<and>
   RoomSchema_parse (room_request (Some (JNum 1))) = Inr (standup_input\<lparr>capacity := 1\<rparr>) \<and>
   RoomSchema_parse (room_request (Some (JNum 11))) = Inr standup_input \<and>
   RoomSchema_parse (room_request (Some (JNum (11 / 2)))) = Inr (standup_input\<lparr>capacity := 11 / 2\<rparr>) \<and>
   RoomSchema_parse (room_request (Some (JStr ''5''))) = Inl [([''capacity''], invalid_type)] \<and>
   post_rooms world0 (room_request (Some (JNum 12))) Map.empty =
     respond 400 (ErrorReply ''too_big at /capacity; '') Map.empty []"
proof -
  let ?m = "[''name'' \<mapsto> JStr ''Standup'',
             ''startAt'' \<mapsto> JStr ''2025-01-01T09:00:00Z'',
             ''endAt'' \<mapsto> JStr ''2025-01-01T09:30:00Z'',
             ''timezone'' \<mapsto> JStr ''UTC'']"
  have r: "room_request v = JObj (?m(''capacity'' := v))" for v
    by (simp add: room_request_def)
  have p: "RoomSchema_parse (JObj (?m(''capacity'' := None))) = Inr standup_input"
    using standup_parse by (simp only: r)
  have c: "capacity standup_input = 11" "standup_input\<lparr>capacity := 11\<rparr> = standup_input"
    by (simp_all add: standup_input_def)
  show ?thesis
    using p c
      capacity_check [OF p, of "Some (JNum 0)"]
      capacity_check [OF p, of "Some (JNum 12)" world0 Map.empty]
      capacity_check [OF p, of "Some (JNum 1)"]
      capacity_check [OF p, of "Some (JNum 11)"]
      capacity_check [OF p, of "Some (JNum (11 / 2))"]
      capacity_check [OF p, of "Some (JStr ''5'')"]
    by (simp add: r world0_message)
qed

text \<open>
  The capacity 5.5 is no integer, and \<^verbatim>\<open>create\<close> accepts it: the room is written to the
  store and returned with that capacity.
\<close>

theorem fractional_capacity_accepted:
  "\<not> integer_capacity (11 / 2) \<and>
   post_rooms world0 (room_request (Some (JNum (11 / 2)))) Map.empty =
     respond 200
       (RoomReply
          [''id'' \<mapsto> JStr ''V1StGXR8_Z'', ''name'' \<mapsto> JStr ''Standup'',
           ''capacity'' \<mapsto> JNum (11 / 2), ''startAt'' \<mapsto> JStr ''2025-01-01T09:00:00Z'',
           ''endAt'' \<mapsto> JStr ''2025-01-01T09:30:00Z'', ''timezone'' \<mapsto> JStr ''UTC'',
           ''recurring'' \<mapsto> JBool False, ''state'' \<mapsto> JStr ''scheduled''])
       [''V1StGXR8_Z'' \<mapsto>
          [''id'' \<mapsto> JStr ''V1StGXR8_Z'', ''name'' \<mapsto> JStr ''Standup'',
           ''capacity'' \<mapsto> JNum (11 / 2), ''startAt'' \<mapsto> JStr ''2025-01-01T09:00:00Z'',
           ''endAt'' \<mapsto> JStr ''2025-01-01T09:30:00Z'', ''timezone'' \<mapsto> JStr ''UTC'',
           ''recurring'' \<mapsto> JBool False, ''state'' \<mapsto> JStr ''scheduled'']]
       [Insert
          [''id'' \<mapsto> JStr ''V1StGXR8_Z'', ''name'' \<mapsto> JStr ''Standup'',
           ''capacity'' \<mapsto> JNum (11 / 2), ''startAt'' \<mapsto> JStr ''2025-01-01T09:00:00Z'',
           ''endAt'' \<mapsto> JStr ''2025-01-01T09:30:00Z'', ''timezone'' \<mapsto> JStr ''UTC'',
           ''recurring'' \<mapsto> JBool False, ''state'' \<mapsto> JStr ''scheduled'']]"
proof -
  have "RoomSchema_parse (room_request (Some (JNum (11 / 2)))) =
          Inr (standup_input\<lparr>capacity := 11 / 2\<rparr>)"
    by (simp add: RoomSchema_parse_Inr room_request_def standup_input_def z_string_min_max_Inr
        z_number_Inr z_string_datetime_Inr z_string_Inr z_boolean_Inr is_datetime_def
        is_digit_def datetime_tail_def)
  then have "post_rooms world0 (room_request (Some (JNum (11 / 2)))) Map.empty =
     respond 200
       (RoomReply
          [''id'' \<mapsto> JStr ''V1StGXR8_Z'', ''name'' \<mapsto> JStr ''Standup'',
           ''capacity'' \<mapsto> JNum (11 / 2), ''startAt'' \<mapsto> JStr ''2025-01-01T09:00:00Z'',
           ''endAt'' \<mapsto> JStr ''2025-01-01T09:30:00Z'', ''timezone'' \<mapsto> JStr ''UTC'',
           ''recurring'' \<mapsto> JBool False, ''state'' \<mapsto> JStr ''scheduled''])
       [''V1StGXR8_Z'' \<mapsto>
          [''id'' \<mapsto> JStr ''V1StGXR8_Z'', ''name'' \<mapsto> JStr ''Standup'',
           ''capacity'' \<mapsto> JNum (11 / 2), ''startAt'' \<mapsto> JStr ''2025-01-01T09:00:00Z'',
           ''endAt'' \<mapsto> JStr ''2025-01-01T09:30:00Z'', ''timezone'' \<mapsto> JStr ''UTC'',
           ''recurring'' \<mapsto> JBool False, ''state'' \<mapsto> JStr ''scheduled'']]
       [Insert
          [''id'' \<mapsto> JStr ''V1StGXR8_Z'', ''name'' \<mapsto> JStr ''Standup'',
           ''capacity'' \<mapsto> JNum (11 / 2), ''startAt'' \<mapsto> JStr ''2025-01-01T09:00:00Z'',
           ''endAt'' \<mapsto> JStr ''2025-01-01T09:30:00Z'', ''timezone'' \<mapsto> JStr ''UTC'',
           ''recurring'' \<mapsto> JBool False, ''state'' \<mapsto> JStr ''scheduled'']]"
    by (simp add: post_rooms_valid rooms_insert_def world0_def standup_input_def spread_def)
  moreover have "\<lfloor>11 / 2 :: rat\<rfloor> = 5"
    by (rule floor_unique) simp_all
  then have "\<not> integer_capacity (11 / 2)"
    by (simp add: integer_capacity_def)
  ultimately show ?thesis by simp
qed

lemma rooms_insert_new_row:
  "rooms_insert f ([''id'' \<mapsto> JStr i] ++ spread d ++ [''state'' \<mapsto> JStr ''scheduled'']) t =
     (case f of
        Some m \<Rightarrow> (Inl m, t)
      | None \<Rightarrow>
          if t i = None
          then (Inr ([''id'' \<mapsto> JStr i] ++ spread d ++ [''state'' \<mapsto> JStr ''scheduled'']),
                t(i \<mapsto> [''id'' \<mapsto> JStr i] ++ spread d ++ [''state'' \<mapsto> JStr ''scheduled'']))
          else (Inl duplicate_key, t))"
  unfolding rooms_insert_def new_row_fields by (simp split: option.split)

lemma post_rooms_valid_cases:
  "RoomSchema_parse b = Inr d \<Longrightarrow>
     post_rooms w b t =
       (case store_error w of
          Some m \<Rightarrow>
            respond 400 (ErrorReply m) t
              [Insert ([''id'' \<mapsto> JStr (nanoid_out w)] ++ spread d ++ [''state'' \<mapsto> JStr ''scheduled''])]
        | None \<Rightarrow>
            if t (nanoid_out w) = None
            then respond 200
                   (RoomReply ([''id'' \<mapsto> JStr (nanoid_out w)] ++ spread d ++ [''state'' \<mapsto> JStr ''scheduled'']))
                   (t(nanoid_out w \<mapsto>
                        [''id'' \<mapsto> JStr (nanoid_out w)] ++ spread d ++ [''state'' \<mapsto> JStr ''scheduled'']))
                   [Insert ([''id'' \<mapsto> JStr (nanoid_out w)] ++ spread d ++ [''state'' \<mapsto> JStr ''scheduled''])]
            else respond 400 (ErrorReply duplicate_key) t
                   [Insert ([''id'' \<mapsto> JStr (nanoid_out w)] ++ spread d ++ [''state'' \<mapsto> JStr ''scheduled''])])"
  unfolding post_rooms_valid rooms_insert_new_row by (simp split: option.split)

text \<open>
  C6. In the handler that calls \<^verbatim>\<open>RoomSchema.parse\<close>, every field constraint is checked
  before the store is called: a body that breaks one is answered with status 400 and the
  validation issues, with no call to the store and the table as it was. A body that
  passes is written with one insert; when that insert fails, because the store fails or
  because the id is taken, the answer is status 400 with the store's message and the table
  is as it was. Both failures are answered with the same status and a body of the same
  shape, the message of whatever was thrown.
\<close>

theorem create_checks_before_writing:
  "(\<not> room_request_ok b \<longrightarrow>
      (\<exists>issues. post_rooms w b t = respond 400 (ErrorReply (ZodError_message w issues)) t [])) \<and>
   (room_request_ok b \<longrightarrow> (\<exists>r. calls (post_rooms w b t) = [Insert r])) \<and>
   (room_request_ok b \<and> store_error w = Some e \<longrightarrow>
      (\<exists>r. post_rooms w b t = respond 400 (ErrorReply e) t [Insert r])) \<and>
   (room_request_ok b \<and> store_error w = None \<and> t (nanoid_out w) \<noteq> None \<longrightarrow>
      (\<exists>r. post_rooms w b t = respond 400 (ErrorReply duplicate_key) t [Insert r]))"
proof -
  have invalid: "\<exists>issues. post_rooms w b t = respond 400 (ErrorReply (ZodError_message w issues)) t []"
    if "\<not> room_request_ok b"
    using that RoomSchema_parse_cases [of b] post_rooms_invalid by blast
  have valid: "(\<exists>r. calls (post_rooms w b t) = [Insert r]) \<and>
      (store_error w = Some e \<longrightarrow>
         (\<exists>r. post_rooms w b t = respond 400 (ErrorReply e) t [Insert r])) \<and>
      (store_error w = None \<and> t (nanoid_out w) \<noteq> None \<longrightarrow>
         (\<exists>r. post_rooms w b t = respond 400 (ErrorReply duplicate_key) t [Insert r]))"
    if "room_request_ok b"
  proof -
    from that obtain d where d: "RoomSchema_parse b = Inr d"
      using RoomSchema_parse_ok by blast
    show ?thesis
      by (auto simp: post_rooms_valid_cases [OF d] respond_def split: option.split)
  qed
  from invalid valid show ?thesis by blast
qed

theorem create_checks_before_writing_witness:
  "\<not> room_request_ok (room_request (Some (JNum 0))) \<and>
   post_rooms world0 (room_request (Some (JNum 0))) Map.empty =
     respond 400 (ErrorReply ''too_small at /capacity; '') Map.empty [] \<and>
   room_request_ok standup \<and>
   (\<exists>r. post_rooms (world0\<lparr>store_error := Some ''fetch failed''\<rparr>) standup Map.empty =
          respond 400 (ErrorReply ''fetch failed'') Map.empty [Insert r]) \<and>
   (\<exists>r. post_rooms world0 standup [''V1StGXR8_Z'' \<mapsto> open_room] =
          respond 400 (ErrorReply duplicate_key) [''V1StGXR8_Z'' \<mapsto> open_room] [Insert r])"
proof -
  have bad: "\<not> room_request_ok (room_request (Some (JNum 0)))"
    by (simp add: room_request_ok_def room_request_def)
  have issues: "RoomSchema_parse (room_request (Some (JNum 0))) = Inl [([''capacity''], too_small)]"
    by (simp add: RoomSchema_parse_def room_request_def z_string_min_max_def
          z_number_min_max_default_def z_string_datetime_def z_string_def z_boolean_default_def
          is_datetime_def is_digit_def datetime_tail_def)
  have ok: "room_request_ok standup"
    by (simp add: room_request_ok_def standup_def is_datetime_def is_digit_def datetime_tail_def)
  from create_checks_before_writing [of "room_request (Some (JNum 0))" world0 Map.empty] bad
  obtain i where "post_rooms world0 (room_request (Some (JNum 0))) Map.empty =
      respond 400 (ErrorReply (ZodError_message world0 i)) Map.empty []"
    by blast
  then have one: "post_rooms world0 (room_request (Some (JNum 0))) Map.empty =
     respond 400 (ErrorReply ''too_small at /capacity; '') Map.empty []"
    by (simp add: post_rooms_invalid [OF issues] respond_def world0_message)
  have two: "\<exists>r. post_rooms (world0\<lparr>store_error := Some ''fetch failed''\<rparr>) standup Map.empty =
          respond 400 (ErrorReply ''fetch failed'') Map.empty [Insert r]"
    using ok create_checks_before_writing
      [of standup "world0\<lparr>store_error := Some ''fetch failed''\<rparr>" Map.empty "''fetch failed''"]
    by simp
  have three: "\<exists>r. post_rooms world0 standup [''V1StGXR8_Z'' \<mapsto> open_room] =
          respond 400 (ErrorReply duplicate_key) [''V1StGXR8_Z'' \<mapsto> open_room] [Insert r]"
    using ok create_checks_before_writing
      [of standup world0 "[''V1StGXR8_Z'' \<mapsto> open_room]"]
    by (simp add: world0_def)
  from bad ok one two three show ?thesis by blast
qed

text \<open>
  A capacity of 0 and a store that cannot be reached are answered alike: status 400 and
  a body that holds a message and nothing else. Only the text of the message differs, and
  a store that fails with the text of the validation message is answered exactly as the
  validation failure is.
\<close>

theorem validation_and_store_failure_answered_alike:
  "resp (post_rooms world0 (room_request (Some (JNum 0))) Map.empty) =
     \<lparr>status = 400, body = ErrorReply ''too_small at /capacity; ''\<rparr> \<and>
   resp (post_rooms (world0\<lparr>store_error := Some ''fetch failed''\<rparr>) standup Map.empty) =
     \<lparr>status = 400, body = ErrorReply ''fetch failed''\<rparr> \<and>
   status (resp (post_rooms world0 (room_request (Some (JNum 0))) Map.empty)) =
   status (resp (post_rooms (world0\<lparr>store_error := Some ''fetch failed''\<rparr>) standup Map.empty)) \<and>
   resp (post_rooms (world0\<lparr>store_error := Some ''too_small at /capacity; ''\<rparr>) standup Map.empty) =
   resp (post_rooms world0 (room_request (Some (JNum 0))) Map.empty)"
proof -
  have issues: "RoomSchema_parse (room_request (Some (JNum 0))) = Inl [([''capacity''], too_small)]"
    by (simp add: RoomSchema_parse_def room_request_def z_string_min_max_def
          z_number_min_max_default_def z_string_datetime_def z_string_def z_boolean_default_def
          is_datetime_def is_digit_def datetime_tail_def)
  have "room_request_ok standup"
    by (simp add: room_request_ok_def standup_def is_datetime_def is_digit_def datetime_tail_def)
  then obtain d where d: "RoomSchema_parse standup = Inr d"
    using RoomSchema_parse_ok by blast
  have "resp (post_rooms (world0\<lparr>store_error := Some e\<rparr>) standup Map.empty) =
     \<lparr>status = 400, body = ErrorReply e\<rparr>" for e
    by (simp add: post_rooms_valid_cases [OF d] respond_def)
  moreover have "resp (post_rooms world0 (room_request (Some (JNum 0))) Map.empty) =
     \<lparr>status = 400, body = ErrorReply ''too_small at /capacity; ''\<rparr>"
    by (simp add: post_rooms_invalid [OF issues] respond_def world0_message)
  ultimately show ?thesis by simp
qed

text \<open>
  The handler of part_002 does not call the schema: whatever the body holds is written,
  as long as its two dates convert. A body with an empty name and the capacity 12 is
  stored.
\<close>

lemma post_rooms_002_writes_unchecked:
  assumes "b \<noteq> JNull"
    and "toISOString (properties b ''startAt'') = Some s"
    and "toISOString (properties b ''endAt'') = Some e"
    and "store_error w = None" and "t (nanoid_out w) = None"
  shows "status (resp (post_rooms_002 toISOString w b t)) = 200 \<and>
         (\<exists>r. tbl (post_rooms_002 toISOString w b t) (nanoid_out w) = Some r \<and>
              r ''name'' = properties b ''name'' \<and>
              r ''capacity'' = Some (nullish (properties b ''capacity'')))"
  using assms by (simp add: post_rooms_002_def rooms_insert_def respond_def Let_def)

lemma post_rooms_002_stores_invalid_room:
  "\<not> room_request_ok (JObj [''name'' \<mapsto> JStr [], ''capacity'' \<mapsto> JNum 12,
        ''startAt'' \<mapsto> JStr ''2025-01-01T09:00:00Z'', ''endAt'' \<mapsto> JStr ''2025-01-01T09:30:00Z'']) \<and>
   status (resp (post_rooms_002 (map_option (\<lambda>v. ''2025-01-01T09:00:00.000Z'')) world0
     (JObj [''name'' \<mapsto> JStr [], ''capacity'' \<mapsto> JNum 12,
        ''startAt'' \<mapsto> JStr ''2025-01-01T09:00:00Z'', ''endAt'' \<mapsto> JStr ''2025-01-01T09:30:00Z''])
     Map.empty)) = 200"
  by (simp add: room_request_ok_def post_rooms_002_def rooms_insert_def respond_def Let_def
        properties_def world0_def)

section \<open>The life of a room\<close>

lemma new_row_id: "([''id'' \<mapsto> JStr i] ++ spread d) ''id'' = Some (JStr i)"
  by (simp add: spread_def)

lemma post_rooms_table:
  "tbl (post_rooms w b t) = t \<or>
   (t (nanoid_out w) = None \<and>
    (\<exists>r. r ''id'' = Some (JStr (nanoid_out w)) \<and> r ''state'' = Some (JStr ''scheduled'') \<and>
         tbl (post_rooms w b t) = t(nanoid_out w \<mapsto> r) \<and>
         resp (post_rooms w b t) = \<lparr>status = 200, body = RoomReply r\<rparr>))"
proof (cases "RoomSchema_parse b")
  case (Inl issues)
  then show ?thesis by (simp add: post_rooms_invalid respond_def)
next
  case (Inr d)
  show ?thesis
    by (auto simp: post_rooms_valid_cases [OF Inr] respond_def new_row_id split: option.split)
qed

lemma post_rooms_created:
  "status (resp (post_rooms w b t)) = 200 \<Longrightarrow>
     t (nanoid_out w) = None \<and>
     (\<exists>r. r ''id'' = Some (JStr (nanoid_out w)) \<and> r ''state'' = Some (JStr ''scheduled'') \<and>
          tbl (post_rooms w b t) = t(nanoid_out w \<mapsto> r) \<and>
          resp (post_rooms w b t) = \<lparr>status = 200, body = RoomReply r\<rparr>)"
proof (cases "RoomSchema_parse b")
  case (Inl issues)
  assume "status (resp (post_rooms w b t)) = 200"
  with Inl show ?thesis by (simp add: post_rooms_invalid respond_def)
next
  case (Inr d)
  assume "status (resp (post_rooms w b t)) = 200"
  then show ?thesis
    by (auto simp: post_rooms_valid_cases [OF Inr] respond_def new_row_id
          split: option.splits if_splits)
qed

lemma get_rooms_table: "tbl (get_rooms w i t) = t"
  by (simp add: get_rooms_def respond_def split: sum.split)

lemma post_tokens_table: "tbl (post_tokens w i b t) = t"
  by (simp add: post_tokens_cases respond_def split: sum.split)

lemma post_close_table:
  "tbl (post_close w i t) = t \<or>
   (\<exists>r. t i = Some r \<and> tbl (post_close w i t) = t(i \<mapsto> r(''state'' \<mapsto> JStr ''closed'')) \<and>
        resp (post_close w i t) = \<lparr>status = 200, body = RoomReply (r(''state'' \<mapsto> JStr ''closed''))\<rparr>)"
  by (auto simp: post_close_def rooms_update_def respond_def split: option.split)

lemma post_close_done:
  "status (resp (post_close w i t)) = 200 \<Longrightarrow>
     \<exists>r. t i = Some r \<and> tbl (post_close w i t) = t(i \<mapsto> r(''state'' \<mapsto> JStr ''closed'')) \<and>
        resp (post_close w i t) = \<lparr>status = 200, body = RoomReply (r(''state'' \<mapsto> JStr ''closed''))\<rparr>"
  by (auto simp: post_close_def rooms_update_def respond_def split: option.splits)

lemma handle_absent:
  "t i = None \<Longrightarrow>
     tbl (handle w q t) i = None \<or>
     (\<exists>r. tbl (handle w q t) i = Some r \<and> r ''state'' = Some (JStr ''scheduled''))"
proof (cases q)
  case (PostRooms b)
  assume "t i = None"
  with PostRooms post_rooms_table [of w b t] show ?thesis by auto
next
  case (PostClose j)
  assume "t i = None"
  with PostClose post_close_table [of w j t] show ?thesis by auto
qed (simp_all add: get_rooms_table post_tokens_table)

lemma handle_present:
  "t i = Some r \<Longrightarrow>
     tbl (handle w q t) i = Some r \<or> tbl (handle w q t) i = Some (r(''state'' \<mapsto> JStr ''closed''))"
proof (cases q)
  case (PostRooms b)
  assume "t i = Some r"
  with PostRooms post_rooms_table [of w b t] show ?thesis by auto
next
  case (PostClose j)
  assume "t i = Some r"
  with PostClose post_close_table [of w j t] show ?thesis by auto
qed (simp_all add: get_rooms_table post_tokens_table)

lemma run_present:
  "t i = Some r \<Longrightarrow> run es t i = Some r \<or> run es t i = Some (r(''state'' \<mapsto> JStr ''closed''))"
proof (induction es arbitrary: t r)
  case Nil
  then show ?case by simp
next
  case (Cons e es)
  obtain w q where e: "e = (w, q)" by (cases e)
  from handle_present [of t i r w q] Cons.prems
  have "tbl (handle w q t) i = Some r \<or> tbl (handle w q t) i = Some (r(''state'' \<mapsto> JStr ''closed''))"
    by blast
  then show ?case
  proof
    assume "tbl (handle w q t) i = Some r"
    with Cons.IH [of "tbl (handle w q t)" r]
    have "run es (tbl (handle w q t)) i = Some r \<or>
          run es (tbl (handle w q t)) i = Some (r(''state'' \<mapsto> JStr ''closed''))"
      by blast
    then show ?thesis unfolding e run.simps .
  next
    assume "tbl (handle w q t) i = Some (r(''state'' \<mapsto> JStr ''closed''))"
    with Cons.IH [of "tbl (handle w q t)" "r(''state'' \<mapsto> JStr ''closed'')"]
    have "run es (tbl (handle w q t)) i = Some (r(''state'' \<mapsto> JStr ''closed'')) \<or>
          run es (tbl (handle w q t)) i =
            Some ((r(''state'' \<mapsto> JStr ''closed''))(''state'' \<mapsto> JStr ''closed''))"
      by blast
    then have "run es (tbl (handle w q t)) i = Some (r(''state'' \<mapsto> JStr ''closed''))"
      unfolding fun_upd_upd by blast
    then show ?thesis unfolding e run.simps by blast
  qed
qed

lemma run_closed:
  assumes "t i = Some r" and "r ''state'' = Some (JStr ''closed'')"
  shows "\<exists>r'. run es t i = Some r' \<and> r' ''state'' = Some (JStr ''closed'')"
  using run_present [of t i r es] assms by auto

lemma run_scheduled_or_closed:
  assumes "\<forall>i r. t i = Some r \<longrightarrow>
             r ''state'' = Some (JStr ''scheduled'') \<or> r ''state'' = Some (JStr ''closed'')"
  shows "\<forall>i r. run es t i = Some r \<longrightarrow>
             r ''state'' = Some (JStr ''scheduled'') \<or> r ''state'' = Some (JStr ''closed'')"
  using assms
proof (induction es arbitrary: t)
  case Nil
  then show ?case by simp
next
  case (Cons e es)
  obtain w q where e: "e = (w, q)" by (cases e)
  have "\<forall>i r. tbl (handle w q t) i = Some r \<longrightarrow>
             r ''state'' = Some (JStr ''scheduled'') \<or> r ''state'' = Some (JStr ''closed'')"
  proof (intro allI impI)
    fix i r assume *: "tbl (handle w q t) i = Some r"
    show "r ''state'' = Some (JStr ''scheduled'') \<or> r ''state'' = Some (JStr ''closed'')"
    proof (cases "t i")
      case None
      from handle_absent [of t i w q] None * show ?thesis by auto
    next
      case (Some r0)
      from handle_present [of t i r0 w q] * Cons.prems Some show ?thesis by auto
    qed
  qed
  from Cons.IH [of "tbl (handle w q t)"] this e show ?case by simp
qed

lemma handle_keeps_rooms: "t i \<noteq> None \<Longrightarrow> tbl (handle w q t) i \<noteq> None"
  using handle_present [of t i _ w q] by fastforce

lemma created_one:
  "created (q, resp (handle w q t)) = [] \<or>
   (created (q, resp (handle w q t)) = [nanoid_out w] \<and> t (nanoid_out w) = None \<and>
    tbl (handle w q t) (nanoid_out w) \<noteq> None)"
proof (cases q)
  case (PostRooms b)
  show ?thesis
  proof (cases "status (resp (post_rooms w b t)) = 200")
    case True
    from post_rooms_created [OF True] PostRooms show ?thesis by auto
  next
    case False
    with PostRooms show ?thesis by (simp split: reply.split option.split json.split)
  qed
qed simp_all

lemma created_fresh:
  "distinct (concat (map created (answers es t))) \<and>
   (\<forall>i \<in> set (concat (map created (answers es t))). t i = None)"
proof (induction es arbitrary: t)
  case Nil
  show ?case by simp
next
  case (Cons e es)
  obtain w q where e: "e = (w, q)" by (cases e)
  let ?t = "tbl (handle w q t)"
  let ?later = "concat (map created (answers es ?t))"
  from Cons.IH [of ?t] have later: "distinct ?later" "\<forall>i \<in> set ?later. ?t i = None"
    by blast+
  have old: "t i = None" if "i \<in> set ?later" for i
  proof (rule ccontr)
    assume "t i \<noteq> None"
    then have "?t i \<noteq> None" by (rule handle_keeps_rooms)
    moreover from later(2) that have "?t i = None" by (rule bspec)
    ultimately show False by contradiction
  qed
  from created_one [of q w t] show ?case
  proof
    assume "created (q, resp (handle w q t)) = []"
    with later(1) old e show ?thesis by simp
  next
    assume *: "created (q, resp (handle w q t)) = [nanoid_out w] \<and> t (nanoid_out w) = None \<and>
      ?t (nanoid_out w) \<noteq> None"
    have "nanoid_out w \<notin> set ?later"
    proof
      assume "nanoid_out w \<in> set ?later"
      with later(2) have "?t (nanoid_out w) = None" by (rule bspec)
      with * show False by simp
    qed
    with * later(1) old e show ?thesis by simp
  qed
qed

lemma standup_ok: "room_request_ok standup"
  by (simp add: room_request_ok_def standup_def is_datetime_def is_digit_def datetime_tail_def)

lemma own_id_request_ok: "room_request_ok own_id_request"
  by (simp add: room_request_ok_def own_id_request_def is_datetime_def is_digit_def
        datetime_tail_def)

lemma three_creates_ids:
  "concat (map created (answers three_creates Map.empty)) = [''V1StGXR8_Z'', ''Uakgb_J5m9'']"
proof -
  obtain d where d: "RoomSchema_parse standup = Inr d"
    using standup_ok RoomSchema_parse_ok by blast
  obtain d' where d': "RoomSchema_parse own_id_request = Inr d'"
    using own_id_request_ok RoomSchema_parse_ok by blast
  show ?thesis
    by (simp add: three_creates_def post_rooms_valid_cases [OF d] post_rooms_valid_cases [OF d']
          world0_def respond_def new_row_id)
qed

text \<open>
  C7. A \<^verbatim>\<open>create\<close> that is answered with status 200 returns the room it stored: its state
  is \<^verbatim>\<open>scheduled\<close> and its id is the one \<^verbatim>\<open>nanoid\<close> drew, whatever the body holds under the
  keys \<^verbatim>\<open>id\<close> and \<^verbatim>\<open>state\<close>; a valid body is answered so whenever the store answers and the
  id is free. In any sequence of requests, the ids of the rooms created are pairwise
  distinct, and none of them was in the store before.
\<close>

theorem created_room_scheduled_with_fresh_id:
  "(status (resp (post_rooms w b t)) = 200 \<longrightarrow>
      (\<exists>r. body (resp (post_rooms w b t)) = RoomReply r \<and>
           r ''state'' = Some (JStr ''scheduled'') \<and>
           r ''id'' = Some (JStr (nanoid_out w)) \<and>
           t (nanoid_out w) = None \<and>
           tbl (post_rooms w b t) (nanoid_out w) = Some r)) \<and>
   (room_request_ok b \<and> store_error w = None \<and> t (nanoid_out w) = None \<longrightarrow>
      status (resp (post_rooms w b t)) = 200) \<and>
   distinct (concat (map created (answers es t))) \<and>
   (\<forall>i \<in> set (concat (map created (answers es t))). t i = None)"
proof -
  have one: "\<exists>r. body (resp (post_rooms w b t)) = RoomReply r \<and>
           r ''state'' = Some (JStr ''scheduled'') \<and>
           r ''id'' = Some (JStr (nanoid_out w)) \<and>
           t (nanoid_out w) = None \<and>
           tbl (post_rooms w b t) (nanoid_out w) = Some r"
    if "status (resp (post_rooms w b t)) = 200"
    using post_rooms_created [OF that] by auto
  have two: "status (resp (post_rooms w b t)) = 200"
    if "room_request_ok b" "store_error w = None" "t (nanoid_out w) = None"
  proof -
    from that(1) obtain d where d: "RoomSchema_parse b = Inr d"
      using RoomSchema_parse_ok by blast
    from that(2,3) show ?thesis
      by (simp add: post_rooms_valid_cases [OF d] respond_def)
  qed
  from one two created_fresh [of es t] show ?thesis by blast
qed

theorem created_room_scheduled_with_fresh_id_witness:
  "room_request_ok own_id_request \<and>
   status (resp (post_rooms world0 own_id_request Map.empty)) = 200 \<and>
   (\<exists>r. body (resp (post_rooms world0 own_id_request Map.empty)) = RoomReply r \<and>
        r ''state'' = Some (JStr ''scheduled'') \<and> r ''id'' = Some (JStr ''V1StGXR8_Z'')) \<and>
   concat (map created (answers three_creates Map.empty)) = [''V1StGXR8_Z'', ''Uakgb_J5m9''] \<and>
   distinct (concat (map created (answers three_creates Map.empty)))"
proof -
  have w: "store_error world0 = None" "nanoid_out world0 = ''V1StGXR8_Z''"
    by (simp_all add: world0_def)
  from created_room_scheduled_with_fresh_id [of world0 own_id_request Map.empty three_creates]
    own_id_request_ok w three_creates_ids
  show ?thesis by auto
qed

lemma run_closed_row:
  assumes "t i = Some (r(''state'' \<mapsto> JStr ''closed''))"
  shows "run es t i = Some (r(''state'' \<mapsto> JStr ''closed''))"
proof -
  from run_present [of t i "r(''state'' \<mapsto> JStr ''closed'')" es] assms
  have "run es t i = Some (r(''state'' \<mapsto> JStr ''closed'')) \<or>
        run es t i = Some ((r(''state'' \<mapsto> JStr ''closed''))(''state'' \<mapsto> JStr ''closed''))"
    by blast
  then show ?thesis unfolding fun_upd_upd by blast
qed

text \<open>
  C8. Once \<^verbatim>\<open>close\<close> has been answered with status 200 for an id, the row stored under
  that id is the row that was there with the state \<^verbatim>\<open>closed\<close>, and it stays so through any
  further requests. After them, a \<^verbatim>\<open>get\<close> of that id reads the store once and returns that
  row when the store answers, and is answered with status 404 and \<^verbatim>\<open>Room not found\<close> when
  the store fails; a token request for that id with a valid role and display name reads
  the store once and is answered with status 400 and \<^verbatim>\<open>Room not available\<close>, and one with
  an invalid role or display name is answered with status 400 and \<^verbatim>\<open>Invalid token data\<close>.
  No token is issued.
\<close>

theorem closed_room_stays_unavailable:
  assumes "status (resp (post_close w i t)) = 200"
  shows "\<exists>r. t i = Some r \<and>
           run es (tbl (post_close w i t)) i = Some (r(''state'' \<mapsto> JStr ''closed'')) \<and>
           (store_error w' = None \<longrightarrow>
              get_rooms w' i (run es (tbl (post_close w i t))) =
                respond 200 (RoomReply (r(''state'' \<mapsto> JStr ''closed'')))
                  (run es (tbl (post_close w i t))) [Select i]) \<and>
           (store_error w' \<noteq> None \<longrightarrow>
              get_rooms w' i (run es (tbl (post_close w i t))) =
                respond 404 (ErrorReply ''Room not found'')
                  (run es (tbl (post_close w i t))) [Select i]) \<and>
           (token_request_ok b \<longrightarrow>
              post_tokens w' i b (run es (tbl (post_close w i t))) =
                respond 400 (ErrorReply ''Room not available'')
                  (run es (tbl (post_close w i t))) [Select i]) \<and>
           (\<not> token_request_ok b \<longrightarrow>
              post_tokens w' i b (run es (tbl (post_close w i t))) =
                respond 400 (ErrorReply ''Invalid token data'')
                  (run es (tbl (post_close w i t))) [])"
proof -
  let ?t = "run es (tbl (post_close w i t))"
  from post_close_done [OF assms] obtain r where
    r: "t i = Some r" "tbl (post_close w i t) i = Some (r(''state'' \<mapsto> JStr ''closed''))"
    by auto
  from run_closed_row [of "tbl (post_close w i t)" i r es] r(2)
  have row: "?t i = Some (r(''state'' \<mapsto> JStr ''closed''))" .
  have found: "get_rooms w' i ?t =
      respond 200 (RoomReply (r(''state'' \<mapsto> JStr ''closed''))) ?t [Select i]"
    if "store_error w' = None"
    using that row by (simp add: get_rooms_def rooms_select_def)
  have fault: "get_rooms w' i ?t = respond 404 (ErrorReply ''Room not found'') ?t [Select i]"
    if "store_error w' \<noteq> None"
    using that by (auto simp: get_rooms_def rooms_select_def)
  have unavailable: "post_tokens w' i b ?t =
      respond 400 (ErrorReply ''Room not available'') ?t [Select i]"
    if "token_request_ok b"
  proof -
    from that obtain d where "TokenSchema_parse b = Inr d"
      using TokenSchema_parse_ok by blast
    with row show ?thesis
      by (simp add: post_tokens_cases rooms_select_def split: option.split)
  qed
  have invalid: "post_tokens w' i b ?t = respond 400 (ErrorReply ''Invalid token data'') ?t []"
    if "\<not> token_request_ok b"
  proof -
    from that obtain issues where "TokenSchema_parse b = Inl issues"
      using TokenSchema_parse_cases [of b] by blast
    then show ?thesis by (simp add: post_tokens_cases)
  qed
  show ?thesis
  proof (intro exI [of _ r] conjI impI)
    show "t i = Some r" by (rule r(1))
    show "?t i = Some (r(''state'' \<mapsto> JStr ''closed''))" by (rule row)
  qed (simp_all add: found fault unavailable invalid)
qed

theorem closed_room_stays_unavailable_witness:
  "status (resp (post_close world0 ''r1'' [''r1'' \<mapsto> open_room])) = 200 \<and>
   run later_requests (tbl (post_close world0 ''r1'' [''r1'' \<mapsto> open_room])) ''r1'' =
     Some closed_room \<and>
   resp (get_rooms world0 ''r1''
           (run later_requests (tbl (post_close world0 ''r1'' [''r1'' \<mapsto> open_room])))) =
     \<lparr>status = 200, body = RoomReply closed_room\<rparr> \<and>
   resp (get_rooms (world0\<lparr>store_error := Some ''fetch failed''\<rparr>) ''r1''
           (run later_requests (tbl (post_close world0 ''r1'' [''r1'' \<mapsto> open_room])))) =
     \<lparr>status = 404, body = ErrorReply ''Room not found''\<rparr> \<and>
   token_request_ok (token_request ''host'' ''Ann'') \<and>
   resp (post_tokens world0 ''r1'' (token_request ''host'' ''Ann'')
           (run later_requests (tbl (post_close world0 ''r1'' [''r1'' \<mapsto> open_room])))) =
     \<lparr>status = 400, body = ErrorReply ''Room not available''\<rparr> \<and>
   \<not> token_request_ok (token_request ''guest'' ''Ann'') \<and>
   resp (post_tokens world0 ''r1'' (token_request ''guest'' ''Ann'')
           (run later_requests (tbl (post_close world0 ''r1'' [''r1'' \<mapsto> open_room])))) =
     \<lparr>status = 400, body = ErrorReply ''Invalid token data''\<rparr>"
proof -
  have closed: "status (resp (post_close world0 ''r1'' [''r1'' \<mapsto> open_room])) = 200"
    by (simp add: post_close_def rooms_update_def respond_def world0_def)
  have ok: "token_request_ok (token_request ''host'' ''Ann'')"
    "\<not> token_request_ok (token_request ''guest'' ''Ann'')"
    by (simp_all add: token_request_ok_def token_request_def)
  have w: "store_error world0 = None"
    "store_error (world0\<lparr>store_error := Some ''fetch failed''\<rparr>) \<noteq> None"
    by (simp_all add: world0_def)
  have row: "open_room(''state'' \<mapsto> JStr ''closed'') = closed_room"
    by (auto simp: closed_room_def open_room_def)
  from closed_room_stays_unavailable [OF closed, of later_requests world0 "token_request ''host'' ''Ann''"]
    closed ok w row
  have answered: "run later_requests (tbl (post_close world0 ''r1'' [''r1'' \<mapsto> open_room])) ''r1'' =
      Some closed_room"
    "resp (get_rooms world0 ''r1''
           (run later_requests (tbl (post_close world0 ''r1'' [''r1'' \<mapsto> open_room])))) =
     \<lparr>status = 200, body = RoomReply closed_room\<rparr>"
    "resp (post_tokens world0 ''r1'' (token_request ''host'' ''Ann'')
           (run later_requests (tbl (post_close world0 ''r1'' [''r1'' \<mapsto> open_room])))) =
     \<lparr>status = 400, body = ErrorReply ''Room not available''\<rparr>"
    by (auto simp: respond_def)
  from closed_room_stays_unavailable [OF closed, of later_requests
      "world0\<lparr>store_error := Some ''fetch failed''\<rparr>" "token_request ''guest'' ''Ann''"]
    ok w
  have failed: "resp (get_rooms (world0\<lparr>store_error := Some ''fetch failed''\<rparr>) ''r1''
           (run later_requests (tbl (post_close world0 ''r1'' [''r1'' \<mapsto> open_room])))) =
     \<lparr>status = 404, body = ErrorReply ''Room not found''\<rparr>"
    by (auto simp: respond_def)
  from closed_room_stays_unavailable [OF closed, of later_requests world0 "token_request ''guest'' ''Ann''"]
    ok
  have invalid: "resp (post_tokens world0 ''r1'' (token_request ''guest'' ''Ann'')
           (run later_requests (tbl (post_close world0 ''r1'' [''r1'' \<mapsto> open_room])))) =
     \<lparr>status = 400, body = ErrorReply ''Invalid token data''\<rparr>"
    by (auto simp: respond_def)
  from closed ok answered failed invalid show ?thesis by simp
qed

text \<open>
  Room \<^verbatim>\<open>r1\<close> is closed with status 200. A \<^verbatim>\<open>get\<close> of \<^verbatim>\<open>r1\<close> that the store fails is then
  answered with status 404 and no room, and a token request for \<^verbatim>\<open>r1\<close> with an empty
  display name is answered with \<^verbatim>\<open>Invalid token data\<close>, not with \<^verbatim>\<open>Room not available\<close>.
\<close>

theorem get_after_close_with_store_fault:
  "status (resp (post_close world0 ''r1'' [''r1'' \<mapsto> open_room])) = 200 \<and>
   resp (get_rooms (world0\<lparr>store_error := Some ''fetch failed''\<rparr>) ''r1''
           (tbl (post_close world0 ''r1'' [''r1'' \<mapsto> open_room]))) =
     \<lparr>status = 404, body = ErrorReply ''Room not found''\<rparr> \<and>
   resp (post_tokens world0 ''r1'' (token_request ''host'' '''')
           (tbl (post_close world0 ''r1'' [''r1'' \<mapsto> open_room]))) =
     \<lparr>status = 400, body = ErrorReply ''Invalid token data''\<rparr>"
proof -
  have bad: "\<exists>issues. TokenSchema_parse (token_request ''host'' '''') = Inl issues"
    using TokenSchema_parse_cases [of "token_request ''host'' ''''"]
    by (simp add: token_request_ok_def token_request_def)
  then show ?thesis
    by (auto simp: post_close_def rooms_update_def get_rooms_def rooms_select_def post_tokens_cases
          respond_def world0_def)
qed

text \<open>
  C9. The state of a room only moves forward. One request leaves a room as it is or sets
  its state to \<^verbatim>\<open>closed\<close>, and a room that one request adds has the state \<^verbatim>\<open>scheduled\<close>. So
  after any sequence of requests a room that was in the store is as it was or as it was
  with the state \<^verbatim>\<open>closed\<close>, a closed room is still closed, and when every room started
  as \<^verbatim>\<open>scheduled\<close> or \<^verbatim>\<open>closed\<close> there is no room with another state.
\<close>

theorem state_moves_forward:
  "(t i = None \<longrightarrow>
      tbl (handle w q t) i = None \<or>
      (\<exists>r. tbl (handle w q t) i = Some r \<and> r ''state'' = Some (JStr ''scheduled''))) \<and>
   (\<forall>r. t i = Some r \<longrightarrow>
      tbl (handle w q t) i = Some r \<or>
      tbl (handle w q t) i = Some (r(''state'' \<mapsto> JStr ''closed''))) \<and>
   (\<forall>r. t i = Some r \<longrightarrow>
      run es t i = Some r \<or> run es t i = Some (r(''state'' \<mapsto> JStr ''closed''))) \<and>
   (\<forall>r. t i = Some r \<and> r ''state'' = Some (JStr ''closed'') \<longrightarrow>
      (\<exists>r'. run es t i = Some r' \<and> r' ''state'' = Some (JStr ''closed''))) \<and>
   ((\<forall>j r. t j = Some r \<longrightarrow>
        r ''state'' = Some (JStr ''scheduled'') \<or> r ''state'' = Some (JStr ''closed'')) \<longrightarrow>
    (\<forall>j r. run es t j = Some r \<longrightarrow>
        r ''state'' = Some (JStr ''scheduled'') \<or> r ''state'' = Some (JStr ''closed'')))"
  using handle_absent [of t i w q] handle_present [of t i _ w q] run_present [of t i _ es]
    run_closed [of t i _ es] run_scheduled_or_closed [of t es]
  by blast

theorem state_moves_forward_witness:
  "closed_room ''state'' = Some (JStr ''closed'') \<and>
   run later_requests [''r1'' \<mapsto> closed_room] ''r1'' = Some closed_room \<and>
   (\<exists>r. tbl (handle world0 (PostRooms standup) [''r1'' \<mapsto> closed_room]) ''V1StGXR8_Z'' = Some r \<and>
        r ''state'' = Some (JStr ''scheduled'')) \<and>
   tbl (handle world0 (PostClose ''r1'') [''r1'' \<mapsto> open_room]) ''r1'' = Some closed_room"
proof -
  have c: "closed_room ''state'' = Some (JStr ''closed'')"
    "closed_room(''state'' \<mapsto> JStr ''closed'') = closed_room"
    "open_room(''state'' \<mapsto> JStr ''closed'') = closed_room"
    "open_room \<noteq> closed_room"
    by (auto simp: closed_room_def open_room_def dest: fun_cong [of _ _ "''state''"])
  have t: "[''r1'' \<mapsto> closed_room] ''r1'' = Some closed_room"
    "[''r1'' \<mapsto> closed_room] ''V1StGXR8_Z'' = None"
    "[''r1'' \<mapsto> open_room] ''r1'' = Some open_room"
    by simp_all
  obtain d where d: "RoomSchema_parse standup = Inr d"
    using standup_ok RoomSchema_parse_ok by blast
  have added: "tbl (handle world0 (PostRooms standup) [''r1'' \<mapsto> closed_room]) ''V1StGXR8_Z'' \<noteq> None"
    by (simp add: post_rooms_valid_cases [OF d] world0_def respond_def)
  have shut: "tbl (handle world0 (PostClose ''r1'') [''r1'' \<mapsto> open_room]) ''r1'' \<noteq> Some open_room"
    using c(3,4) by (simp add: post_close_def rooms_update_def respond_def world0_def)
  from state_moves_forward [of "[''r1'' \<mapsto> closed_room]" "''r1''" world0 "PostRooms standup" later_requests]
    c t
  have one: "run later_requests [''r1'' \<mapsto> closed_room] ''r1'' = Some closed_room"
    by auto
  from state_moves_forward [of "[''r1'' \<mapsto> closed_room]" "''V1StGXR8_Z''" world0 "PostRooms standup" "[]"]
    t added
  have two: "\<exists>r. tbl (handle world0 (PostRooms standup) [''r1'' \<mapsto> closed_room]) ''V1StGXR8_Z'' = Some r \<and>
        r ''state'' = Some (JStr ''scheduled'')"
    by auto
  from state_moves_forward [of "[''r1'' \<mapsto> open_room]" "''r1''" world0 "PostClose ''r1''" "[]"]
    t shut c
  have three: "tbl (handle world0 (PostClose ''r1'') [''r1'' \<mapsto> open_room]) ''r1'' = Some closed_room"
    by auto
  from c(1) one two three show ?thesis by blast
qed

end
